theory Spec2Isabelle
  imports Complex_Main "HOL-Library.AList"
begin

text \<open>
  A model of the ShopVision video viewer: the detection client \<^verbatim>\<open>detectProducts\<close>, the
  overlay renderer \<^verbatim>\<open>DetectionOverlay\<close>, the handlers of \<^verbatim>\<open>VideoPlayer\<close> (pause, play, frame
  capture) and the upload handler of \<^verbatim>\<open>App\<close>. Functions of the program keep their names.
  What the browser, the JavaScript engine and the detection service do is an input of
  the model: a handler is a function from these inputs to the effects it has.
\<close>

section \<open>JavaScript strings\<close>

text \<open>
  A JavaScript string is a sequence of UTF-16 code units. The model covers the strings
  whose code units are all below 256 (ASCII and Latin-1): a \<open>string\<close> is the list of
  its code units, one \<open>char\<close> each. Every string constant of the program is ASCII.
\<close>

text \<open>\<^verbatim>\<open>s.startsWith(p)\<close>\<close>

fun startsWith :: "string \<Rightarrow> string \<Rightarrow> bool" where
  "startsWith s [] = True"
| "startsWith [] (p # ps) = False"
| "startsWith (c # cs) (p # ps) = (c = p \<and> startsWith cs ps)"

text \<open>\<^verbatim>\<open>s.includes(sub)\<close>: \<open>sub\<close> occurs in \<open>s\<close> at some position.\<close>

fun includes_str :: "string \<Rightarrow> string \<Rightarrow> bool" where
  "includes_str [] sub = (sub = [])"
| "includes_str (c # cs) sub = (startsWith (c # cs) sub \<or> includes_str cs sub)"

text \<open>
  \<^verbatim>\<open>s.toLowerCase()\<close>. Below 256 the code units with a lower-case mapping are A-Z and
  the Latin-1 capitals 0xC0-0xDE (without the multiplication sign 0xD7); each maps to the
  code unit 32 above it.
\<close>

definition toLowerCase_unit :: "char \<Rightarrow> char" where
  "toLowerCase_unit c =
     (let n = (of_char c :: nat)
      in if (65 \<le> n \<and> n \<le> 90) \<or> (192 \<le> n \<and> n \<le> 222 \<and> n \<noteq> 215)
         then char_of (n + 32) else c)"

definition toLowerCase :: "string \<Rightarrow> string" where
  "toLowerCase s = map toLowerCase_unit s"

text \<open>Decimal digits of a natural number, as \<^verbatim>\<open>String(n)\<close> prints an integer.\<close>

definition digit_char :: "nat \<Rightarrow> char" where
  "digit_char d = char_of (48 + d)"

function show_nat :: "nat \<Rightarrow> string" where
  "show_nat n = (if n < 10 then [digit_char n] else show_nat (n div 10) @ [digit_char (n mod 10)])"
  by pat_completeness auto
termination
  by (relation "measure (\<lambda>n. n)") auto

declare show_nat.simps [simp del]

text \<open>
  \<^verbatim>\<open>encodeURIComponent(s)\<close>: the unreserved characters (letters, digits and
  \<^verbatim>\<open>- _ . ! ~ * ' ( )\<close>) stay; every other code unit is replaced by the bytes of its UTF-8
  encoding, each written \<^verbatim>\<open>%XX\<close> with upper-case hexadecimal digits. A code unit below 128
  is one byte, one from 128 to 255 is two.
\<close>

definition uriUnreserved :: "char \<Rightarrow> bool" where
  "uriUnreserved c =
     (let n = (of_char c :: nat)
      in (65 \<le> n \<and> n \<le> 90) \<or> (97 \<le> n \<and> n \<le> 122) \<or> (48 \<le> n \<and> n \<le> 57) \<or>
         c \<in> set ''-_.!~*'()'')"

definition hex_digit :: "nat \<Rightarrow> char" where
  "hex_digit d = ''0123456789ABCDEF'' ! d"

definition percent_byte :: "nat \<Rightarrow> string" where
  "percent_byte b = [CHR ''%'', hex_digit (b div 16), hex_digit (b mod 16)]"

definition encode_unit :: "char \<Rightarrow> string" where
  "encode_unit c =
     (let n = (of_char c :: nat)
      in if uriUnreserved c then [c]
         else if n < 128 then percent_byte n
         else percent_byte (192 + n div 64) @ percent_byte (128 + n mod 64))"

definition encodeURIComponent :: "string \<Rightarrow> string" where
  "encodeURIComponent s = concat (map encode_unit s)"

section \<open>JavaScript values\<close>

text \<open>
  The values \<^verbatim>\<open>JSON.parse\<close> returns, and \<^verbatim>\<open>undefined\<close>. An object is the list of its own
  properties in enumeration order, one entry for each key. A number is the real that
  the double denotes; the detection client does no arithmetic on numbers, it tests
  their truthiness and copies them.
\<close>

datatype js_value =
    JUndefined
  | JNull
  | JBoolean bool
  | JNumber real
  | JString string
  | JArray "js_value list"
  | JObject "(string \<times> js_value) list"

text \<open>Truthiness, as \<^verbatim>\<open>!v\<close> and \<^verbatim>\<open>||\<close> test it.\<close>

fun truthy :: "js_value \<Rightarrow> bool" where
  "truthy JUndefined = False"
| "truthy JNull = False"
| "truthy (JBoolean b) = b"
| "truthy (JNumber r) = (r \<noteq> 0)"
| "truthy (JString s) = (s \<noteq> [])"
| "truthy (JArray xs) = True"
| "truthy (JObject kvs) = True"

text \<open>\<^verbatim>\<open>Array.isArray(v)\<close>\<close>

fun isArray :: "js_value \<Rightarrow> bool" where
  "isArray (JArray xs) = True"
| "isArray v = False"

text \<open>
  The property read \<^verbatim>\<open>v.k\<close>, for a name \<open>k\<close> that no built-in prototype defines (the
  program reads \<^verbatim>\<open>products\<close>, \<^verbatim>\<open>category\<close>, \<^verbatim>\<open>box\<close> and \<^verbatim>\<open>name\<close>). On \<^verbatim>\<open>undefined\<close> and
  \<^verbatim>\<open>null\<close> the read throws a TypeError (\<open>None\<close>); an object gives its own property;
  everything else gives \<^verbatim>\<open>undefined\<close>.
\<close>

fun get_property :: "js_value \<Rightarrow> string \<Rightarrow> js_value option" where
  "get_property JUndefined k = None"
| "get_property JNull k = None"
| "get_property (JObject kvs) k = Some (case map_of kvs k of None \<Rightarrow> JUndefined | Some v \<Rightarrow> v)"
| "get_property v k = Some JUndefined"

text \<open>
  The indexed read \<^verbatim>\<open>v[i]\<close> for a number \<open>i\<close>: an element of an array, a one-character
  string of a string, the property named by the digits of \<open>i\<close> of an object.
\<close>

fun get_index :: "js_value \<Rightarrow> nat \<Rightarrow> js_value option" where
  "get_index JUndefined i = None"
| "get_index JNull i = None"
| "get_index (JArray xs) i = Some (if i < length xs then xs ! i else JUndefined)"
| "get_index (JString s) i = Some (if i < length s then JString [s ! i] else JUndefined)"
| "get_index (JObject kvs) i =
     Some (case map_of kvs (show_nat i) of None \<Rightarrow> JUndefined | Some v \<Rightarrow> v)"
| "get_index v i = Some JUndefined"

text \<open>
  The own enumerable properties an object spread \<^verbatim>\<open>{...v}\<close> copies: those of an object,
  the indexed elements of an array or a string, nothing for the other values.
\<close>

fun own_properties :: "js_value \<Rightarrow> (string \<times> js_value) list" where
  "own_properties (JObject kvs) = kvs"
| "own_properties (JArray xs) = zip (map show_nat [0..<length xs]) xs"
| "own_properties (JString s) = zip (map show_nat [0..<length s]) (map (\<lambda>c. JString [c]) s)"
| "own_properties v = []"

text \<open>
  The conversion to a string that \<^verbatim>\<open>encodeURIComponent\<close> applies to its argument. How a
  number prints is left to the parameter \<open>num\<close>. An array prints its elements joined by
  commas, \<^verbatim>\<open>null\<close> and \<^verbatim>\<open>undefined\<close> elements as nothing. An object prints as
  \<^verbatim>\<open>[object Object]\<close>, unless an own property \<^verbatim>\<open>toString\<close> (never a function in parsed
  JSON) hides the inherited method: then the conversion throws a TypeError (\<open>None\<close>).
\<close>

fun ToString :: "(real \<Rightarrow> string) \<Rightarrow> js_value \<Rightarrow> string option"
  and join :: "(real \<Rightarrow> string) \<Rightarrow> js_value list \<Rightarrow> string option"
  and join_element :: "(real \<Rightarrow> string) \<Rightarrow> js_value \<Rightarrow> string option" where
  "ToString num JUndefined = Some ''undefined''"
| "ToString num JNull = Some ''null''"
| "ToString num (JBoolean b) = Some (if b then ''true'' else ''false'')"
| "ToString num (JNumber r) = Some (num r)"
| "ToString num (JString s) = Some s"
| "ToString num (JArray xs) = join num xs"
| "ToString num (JObject kvs) =
     (if ''toString'' \<in> fst ` set kvs then None else Some ''[object Object]'')"
| "join num [] = Some []"
| "join num (x # xs) =
     (case join_element num x of None \<Rightarrow> None
      | Some s \<Rightarrow>
          (if xs = [] then Some s
           else (case join num xs of None \<Rightarrow> None | Some t \<Rightarrow> Some (s @ '','' @ t))))"
| "join_element num JUndefined = Some []"
| "join_element num JNull = Some []"
| "join_element num (JBoolean b) = ToString num (JBoolean b)"
| "join_element num (JNumber r) = ToString num (JNumber r)"
| "join_element num (JString s) = ToString num (JString s)"
| "join_element num (JArray xs) = ToString num (JArray xs)"
| "join_element num (JObject kvs) = ToString num (JObject kvs)"

section \<open>The detection service client (src/services/geminiService.ts)\<close>

text \<open>
  \<^verbatim>\<open>SEARCH_BASE_URLS\<close> is an object literal, so a read \<^verbatim>\<open>SEARCH_BASE_URLS[k]\<close> finds the
  four own properties and, for every other key, what the object inherits from
  \<^verbatim>\<open>Object.prototype\<close>: its methods, \<^verbatim>\<open>constructor\<close> (the function \<^verbatim>\<open>Object\<close>) and the
  accessor \<^verbatim>\<open>__proto__\<close> (which returns \<^verbatim>\<open>Object.prototype\<close> itself). A key that is neither
  reads as \<^verbatim>\<open>undefined\<close>.
\<close>

definition SEARCH_BASE_URLS :: "(string \<times> string) list" where
  "SEARCH_BASE_URLS =
     [(''fashion'', ''https://www.amazon.com/s?k=''),
      (''shoe'', ''https://www.nike.com/w?q=''),
      (''electronics'', ''https://www.bestbuy.com/site/searchpage.jsp?st=''),
      (''default'', ''https://www.google.com/search?q=buy+'')]"

definition Object_prototype_names :: "string list" where
  "Object_prototype_names =
     [''constructor'', ''__proto__'', ''hasOwnProperty'', ''isPrototypeOf'',
      ''propertyIsEnumerable'', ''toLocaleString'', ''toString'', ''valueOf'',
      ''__defineGetter__'', ''__defineSetter__'', ''__lookupGetter__'', ''__lookupSetter__'']"

datatype table_read =
    OwnString string
  | Inherited string
  | NotFound

definition read_table :: "(string \<times> string) list \<Rightarrow> string \<Rightarrow> table_read" where
  "read_table table k =
     (case map_of table k of
        Some url \<Rightarrow> OwnString url
      | None \<Rightarrow> if k \<in> set Object_prototype_names then Inherited k else NotFound)"

text \<open>Truthiness of what a read returns: functions and objects are truthy.\<close>

fun table_truthy :: "table_read \<Rightarrow> bool" where
  "table_truthy (OwnString url) = (url \<noteq> [])"
| "table_truthy (Inherited k) = True"
| "table_truthy NotFound = False"

text \<open>
  What a template literal prints for the value read: the string itself; for
  \<^verbatim>\<open>Object.prototype\<close> the text \<^verbatim>\<open>[object Object]\<close>; for a built-in function its source text
  as V8 and JavaScriptCore print it.
\<close>

fun template_text :: "table_read \<Rightarrow> string" where
  "template_text (OwnString url) = url"
| "template_text (Inherited k) =
     (if k = ''__proto__'' then ''[object Object]''
      else ''function '' @ (if k = ''constructor'' then ''Object'' else k) @ ''() { [native code] }'')"
| "template_text NotFound = ''undefined''"

text \<open>
  \<^verbatim>\<open>SEARCH_BASE_URLS[category.toLowerCase()] || SEARCH_BASE_URLS["default"]\<close>
\<close>

definition baseUrl_for :: "string \<Rightarrow> table_read" where
  "baseUrl_for category =
     (let found = read_table SEARCH_BASE_URLS (toLowerCase category)
      in if table_truthy found then found else read_table SEARCH_BASE_URLS ''default'')"

text \<open>
  What the environment does in one call of \<^verbatim>\<open>detectProducts\<close>:
  \<^item> \<open>generateContent\<close>: the request to the service. \<open>Inl m\<close>: the call fails with an
    error whose message is \<open>m\<close>; \<open>Inr t\<close>: it answers, and \<^verbatim>\<open>response.text\<close> is \<open>t\<close>
    (\<open>None\<close> for \<^verbatim>\<open>undefined\<close>).
  \<^item> \<open>JSON_parse\<close>: what \<^verbatim>\<open>JSON.parse\<close> does on that text. \<open>Inl m\<close>: it throws a
    SyntaxError with message \<open>m\<close>; \<open>Inr v\<close>: it returns \<open>v\<close>.
  \<^item> \<open>TypeError_message\<close>: the message of the TypeError the engine throws on a read
    from \<^verbatim>\<open>undefined\<close> or \<^verbatim>\<open>null\<close>, a call of something that is no function, or a failed
    conversion to a string.
  \<^item> \<open>Number_toString\<close>: how the engine prints a number.
\<close>

record runtime =
  generateContent :: "string + string option"
  JSON_parse :: "string + js_value"
  TypeError_message :: string
  Number_toString :: "real \<Rightarrow> string"

record DetectionResponse =
  products :: "js_value list"

text \<open>
  The function mapped over \<^verbatim>\<open>result.products\<close> (lines 77-89). \<open>Inl m\<close>: it throws an
  error with message \<open>m\<close>. \<^verbatim>\<open>p.category.toLowerCase()\<close> succeeds on a string only.
\<close>

definition detect_product :: "runtime \<Rightarrow> js_value \<Rightarrow> string + js_value" where
  "detect_product rt p =
     (case get_property p ''category'' of
        Some (JString category) \<Rightarrow>
          (let baseUrl = baseUrl_for category
           in case get_property p ''box'' of
                None \<Rightarrow> Inl (TypeError_message rt)
              | Some b \<Rightarrow>
                  (case (get_index b 0, get_index b 1, get_index b 2, get_index b 3) of
                     (Some ymin, Some xmin, Some ymax, Some xmax) \<Rightarrow>
                       (case get_property p ''name'' of
                          None \<Rightarrow> Inl (TypeError_message rt)
                        | Some n \<Rightarrow>
                            (case ToString (Number_toString rt) n of
                               None \<Rightarrow> Inl (TypeError_message rt)
                             | Some name \<Rightarrow>
                                 Inr (JObject
                                   (AList.update ''shoppingLink''
                                      (JString (template_text baseUrl @ encodeURIComponent name))
                                      (AList.update ''box''
                                         (JObject [(''ymin'', ymin), (''xmin'', xmin),
                                                   (''ymax'', ymax), (''xmax'', xmax)])
                                         (own_properties p))))))
                   | _ \<Rightarrow> Inl (TypeError_message rt)))
      | _ \<Rightarrow> Inl (TypeError_message rt))"

text \<open>\<^verbatim>\<open>xs.map(f)\<close> for an \<open>f\<close> that can throw: the first throw ends the loop.\<close>

fun map_throwing :: "('a \<Rightarrow> string + 'b) \<Rightarrow> 'a list \<Rightarrow> string + 'b list" where
  "map_throwing f [] = Inr []"
| "map_throwing f (x # xs) =
     (case f x of
        Inl m \<Rightarrow> Inl m
      | Inr y \<Rightarrow> (case map_throwing f xs of Inl m \<Rightarrow> Inl m | Inr ys \<Rightarrow> Inr (y # ys)))"

fun elements :: "js_value \<Rightarrow> js_value list" where
  "elements (JArray xs) = xs"
| "elements v = []"

text \<open>The body of the \<^verbatim>\<open>try\<close> block (lines 28-91).\<close>

definition detect_try :: "runtime \<Rightarrow> string + DetectionResponse" where
  "detect_try rt =
     (case generateContent rt of
        Inl m \<Rightarrow> Inl m
      | Inr text \<Rightarrow>
          if text = None \<or> text = Some [] then Inl ''The AI model returned an empty response.''
          else (case JSON_parse rt of
                  Inl m \<Rightarrow> Inl m
                | Inr result \<Rightarrow>
                    (case get_property result ''products'' of
                       None \<Rightarrow> Inl (TypeError_message rt)
                     | Some ps \<Rightarrow>
                         if \<not> truthy ps then Inr \<lparr>products = []\<rparr>
                         else if \<not> isArray ps then Inr \<lparr>products = []\<rparr>
                         else (case map_throwing (detect_product rt) (elements ps) of
                                 Inl m \<Rightarrow> Inl m
                               | Inr detected \<Rightarrow> Inr \<lparr>products = detected\<rparr>))))"

text \<open>
  The \<^verbatim>\<open>catch\<close> block (lines 92-99): the message of the error it throws, from the message
  of the error it caught (the empty string when that has none).
\<close>

definition rethrown_message :: "string \<Rightarrow> string" where
  "rethrown_message m =
     (if includes_str m ''API_KEY''
      then ''Invalid or missing API Key. Please check your configuration.''
      else if m = [] then ''An unexpected error occurred during product detection.''
      else m)"

text \<open>\<open>Inl m\<close>: the promise is rejected with an error whose message is \<open>m\<close>.\<close>

definition detectProducts :: "runtime \<Rightarrow> string + DetectionResponse" where
  "detectProducts rt =
     (case detect_try rt of
        Inl m \<Rightarrow> Inl (rethrown_message m)
      | Inr response \<Rightarrow> Inr response)"

section \<open>The declared types (src/types.ts)\<close>

text \<open>
  The coordinates of a box are numbers. The model covers the boxes whose coordinates are
  integers, as the service reports them on its scale from 0 to 1000: a coordinate is an
  \<open>int\<close>. A box with a fractional coordinate has no typed view below, and what the
  renderer computes for it in double arithmetic is not modelled.
\<close>

record BoundingBox =
  ymin :: int
  xmin :: int
  ymax :: int
  xmax :: int

text \<open>The four coordinates lie on the scale from 0 to 1000.\<close>

definition on_scale :: "BoundingBox \<Rightarrow> bool" where
  "on_scale b =
     (0 \<le> ymin b \<and> ymin b \<le> 1000 \<and> 0 \<le> xmin b \<and> xmin b \<le> 1000 \<and>
      0 \<le> ymax b \<and> ymax b \<le> 1000 \<and> 0 \<le> xmax b \<and> xmax b \<le> 1000)"

record DetectedProduct =
  id' :: string
  name :: string
  category :: string
  confidence :: real
  box :: BoundingBox
  shoppingLink :: string

text \<open>
  \<^verbatim>\<open>detectProducts\<close> builds its products from untyped JSON and returns them under the
  declared type. The typed view of a value: the record of its fields when the value is
  an object that has them at the declared types, \<open>None\<close> otherwise.
\<close>

fun field :: "js_value \<Rightarrow> string \<Rightarrow> js_value option" where
  "field (JObject kvs) k = map_of kvs k"
| "field v k = None"

fun number_field :: "js_value \<Rightarrow> string \<Rightarrow> real option" where
  "number_field v k = (case field v k of Some (JNumber r) \<Rightarrow> Some r | _ \<Rightarrow> None)"

fun string_field :: "js_value \<Rightarrow> string \<Rightarrow> string option" where
  "string_field v k = (case field v k of Some (JString s) \<Rightarrow> Some s | _ \<Rightarrow> None)"

fun integer_field :: "js_value \<Rightarrow> string \<Rightarrow> int option" where
  "integer_field v k =
     (case field v k of
        Some (JNumber r) \<Rightarrow> if r = of_int \<lfloor>r\<rfloor> then Some \<lfloor>r\<rfloor> else None
      | _ \<Rightarrow> None)"

definition as_BoundingBox :: "js_value \<Rightarrow> BoundingBox option" where
  "as_BoundingBox v =
     (case (integer_field v ''ymin'', integer_field v ''xmin'',
            integer_field v ''ymax'', integer_field v ''xmax'') of
        (Some a, Some b, Some c, Some d) \<Rightarrow> Some \<lparr>ymin = a, xmin = b, ymax = c, xmax = d\<rparr>
      | _ \<Rightarrow> None)"

definition as_DetectedProduct :: "js_value \<Rightarrow> DetectedProduct option" where
  "as_DetectedProduct v =
     (case (string_field v ''id'', string_field v ''name'', string_field v ''category'',
            number_field v ''confidence'', Option.bind (field v ''box'') as_BoundingBox,
            string_field v ''shoppingLink'') of
        (Some i, Some n, Some c, Some r, Some b, Some l) \<Rightarrow>
          Some \<lparr>id' = i, name = n, category = c, confidence = r, box = b, shoppingLink = l\<rparr>
      | _ \<Rightarrow> None)"

fun as_DetectedProducts :: "js_value list \<Rightarrow> DetectedProduct list option" where
  "as_DetectedProducts [] = Some []"
| "as_DetectedProducts (v # vs) =
     (case as_DetectedProduct v of
        None \<Rightarrow> None
      | Some p \<Rightarrow> (case as_DetectedProducts vs of None \<Rightarrow> None | Some ps \<Rightarrow> Some (p # ps)))"

section \<open>The overlay renderer (DetectionOverlay)\<close>

text \<open>
  What the component returns: the loading indicator, \<^verbatim>\<open>null\<close>, or one rectangle for each
  product. A rectangle is described by its four style lengths, the URL its click opens
  in a new browsing context, and the text of its hover label.

  A style length is the text of a template \<^verbatim>\<open>${n}%\<close>. \<open>Percent q\<close> stands for the text in
  which the number printed is the decimal expansion of the rational \<open>q\<close>. For integer
  coordinates \<open>a\<close> and \<open>b\<close> on the scale from 0 to 1000 this is what the code prints: the
  double \<open>a - b\<close> is the exact difference, and the double \<open>a / 10\<close>, the one nearest to
  the quotient, prints as the shortest decimal that reads back as it, which is the
  decimal expansion of \<open>a / 10\<close> (10 for 100, 12.3 for 123).
\<close>

datatype css_length = Percent rat

record rectangle =
  react_key :: string
  style_top :: css_length
  style_left :: css_length
  style_width :: css_length
  style_height :: css_length
  onClick_opens :: string
  hover_label :: string

datatype overlay =
    AnalyzingFrame
  | NoOverlay
  | BoundingBoxes "rectangle list"

definition product_rectangle :: "DetectedProduct \<Rightarrow> rectangle" where
  "product_rectangle product =
     \<lparr>react_key = id' product,
      style_top = Percent (of_int (ymin (box product)) / 10),
      style_left = Percent (of_int (xmin (box product)) / 10),
      style_width = Percent (of_int (xmax (box product) - xmin (box product)) / 10),
      style_height = Percent (of_int (ymax (box product) - ymin (box product)) / 10),
      onClick_opens = shoppingLink product,
      hover_label = name product\<rparr>"

definition DetectionOverlay :: "DetectedProduct list \<Rightarrow> bool \<Rightarrow> overlay" where
  "DetectionOverlay detected processing =
     (if processing then AnalyzingFrame
      else if length detected = 0 then NoOverlay
      else BoundingBoxes (map product_rectangle detected))"

section \<open>View state and the effects of a handler\<close>

text \<open>
  The state of the view: the state variables of \<^verbatim>\<open>App\<close> and \<^verbatim>\<open>isPaused\<close> of
  \<^verbatim>\<open>VideoPlayer\<close>. A handler is modelled by the list of effects it has, in order: the
  state setters it calls and the browser and service calls it makes. \<^verbatim>\<open>VideoPlayer\<close>
  reaches the setters through its props: \<^verbatim>\<open>App\<close> passes \<^verbatim>\<open>setDetections\<close> as
  \<^verbatim>\<open>onDetections\<close>, \<^verbatim>\<open>setIsProcessing\<close> as \<^verbatim>\<open>onProcessing\<close> and \<^verbatim>\<open>setError\<close> as
  \<^verbatim>\<open>onError\<close>. Console output is not modelled.
\<close>

record view_state =
  videoSrc :: string
  detections :: "js_value list"
  isProcessing :: bool
  hasUploaded :: bool
  error :: "string option"
  isPaused :: bool

datatype effect =
    SetError "string option"
  | SetIsProcessing bool
  | SetDetections "js_value list"
  | SetVideoSrc string
  | SetHasUploaded bool
  | SetIsPaused bool
  | RevokeObjectURL string
  | CreateObjectURL
  | ResizeCanvas nat nat
  | DrawImage nat nat
  | DetectRequest "string option"

fun apply_effect :: "view_state \<Rightarrow> effect \<Rightarrow> view_state" where
  "apply_effect st (SetError e) = st\<lparr>error := e\<rparr>"
| "apply_effect st (SetIsProcessing b) = st\<lparr>isProcessing := b\<rparr>"
| "apply_effect st (SetDetections ds) = st\<lparr>detections := ds\<rparr>"
| "apply_effect st (SetVideoSrc url) = st\<lparr>videoSrc := url\<rparr>"
| "apply_effect st (SetHasUploaded b) = st\<lparr>hasUploaded := b\<rparr>"
| "apply_effect st (SetIsPaused b) = st\<lparr>isPaused := b\<rparr>"
| "apply_effect st (RevokeObjectURL url) = st"
| "apply_effect st CreateObjectURL = st"
| "apply_effect st (ResizeCanvas w h) = st"
| "apply_effect st (DrawImage w h) = st"
| "apply_effect st (DetectRequest payload) = st"

definition run :: "view_state \<Rightarrow> effect list \<Rightarrow> view_state" where
  "run st effects = foldl apply_effect st effects"

definition SAMPLE_VIDEO :: string where
  "SAMPLE_VIDEO = ''https://storage.googleapis.com/gtv-videos-bucket/sample/BigBuckBunny.mp4''"

definition initial_state :: view_state where
  "initial_state =
     \<lparr>videoSrc = SAMPLE_VIDEO, detections = [], isProcessing = False, hasUploaded = False,
      error = None, isPaused = True\<rparr>"

text \<open>
  What \<^verbatim>\<open>App\<close> renders over the video: \<^verbatim>\<open>DetectionOverlay\<close> on the detections and the
  processing flag of the state. \<open>None\<close> when a detection of the state does not have the
  declared type, where the typed component is not modelled.
\<close>

definition App_overlay :: "view_state \<Rightarrow> overlay option" where
  "App_overlay st =
     map_option (\<lambda>detected. DetectionOverlay detected (isProcessing st))
       (as_DetectedProducts (detections st))"

section \<open>The playback controller (VideoPlayer)\<close>

text \<open>
  What the browser does in one capture: the video element behind \<^verbatim>\<open>videoRef.current\<close>
  with its intrinsic size (\<open>None\<close> for \<^verbatim>\<open>null\<close>), whether \<^verbatim>\<open>canvasRef.current\<close> and the 2D
  context exist, the message of the error \<^verbatim>\<open>drawImage\<close> throws (\<open>None\<close>: it returns), the
  data URL \<^verbatim>\<open>toDataURL\<close> returns (\<open>None\<close>: it throws), and the detection call.
\<close>

record video_element =
  videoWidth :: nat
  videoHeight :: nat

record capture =
  videoRef :: "video_element option"
  canvasRef :: bool
  getContext2d :: bool
  drawImage :: "string option"
  toDataURL :: "string option"
  service :: runtime

text \<open>\<^verbatim>\<open>dataUrl.split(',')[1]\<close>: \<open>None\<close> (\<^verbatim>\<open>undefined\<close>) when there is no comma.\<close>

definition split_comma_1 :: "string \<Rightarrow> string option" where
  "split_comma_1 s =
     (case dropWhile (\<lambda>c. c \<noteq> CHR '','') s of
        [] \<Rightarrow> None
      | comma # rest \<Rightarrow> Some (takeWhile (\<lambda>c. c \<noteq> CHR '','') rest))"

text \<open>The outer \<^verbatim>\<open>catch\<close> block of \<^verbatim>\<open>captureFrame\<close> (lines 108-110).\<close>

definition capture_catch :: "string \<Rightarrow> effect list" where
  "capture_catch m =
     [SetError (Some (if m = [] then ''Failed to analyze the video frame.'' else m))]"

text \<open>The \<^verbatim>\<open>try\<close> block with its \<^verbatim>\<open>catch\<close> (lines 89-110).\<close>

definition capture_try :: "capture \<Rightarrow> video_element \<Rightarrow> effect list" where
  "capture_try env video =
     [SetError None, SetIsProcessing True, SetDetections []] @
     (case drawImage env of
        Some m \<Rightarrow> capture_catch m
      | None \<Rightarrow>
          DrawImage (videoWidth video) (videoHeight video) #
          (case toDataURL env of
             None \<Rightarrow>
               capture_catch
                 ''Cannot capture frame due to security restrictions (CORS). Please try a local file or a CORS-enabled URL.''
           | Some dataUrl \<Rightarrow>
               DetectRequest (split_comma_1 dataUrl) #
               (case detectProducts (service env) of
                  Inl m \<Rightarrow> capture_catch m
                | Inr results \<Rightarrow> [SetDetections (products results)])))"

definition captureFrame :: "capture \<Rightarrow> effect list" where
  "captureFrame env =
     (case videoRef env of
        None \<Rightarrow> []
      | Some video \<Rightarrow>
          if canvasRef env then
            if getContext2d env then
              ResizeCanvas (videoWidth video) (videoHeight video) #
              (if videoWidth video = 0 \<or> videoHeight video = 0
               then [SetError (Some ''Video dimensions are invalid. Ensure the video is loaded properly.'')]
               else capture_try env video @ [SetIsProcessing False])
            else []
          else [])"

definition handlePause :: "capture \<Rightarrow> effect list" where
  "handlePause env = SetIsPaused True # captureFrame env"

definition handlePlay :: "effect list" where
  "handlePlay = [SetIsPaused False, SetError None, SetDetections []]"

section \<open>File upload (handleFileUpload of App)\<close>

record File =
  file_name :: string
  file_type :: string
  file_size :: nat

definition MAX_FILE_SIZE_MB :: nat where
  "MAX_FILE_SIZE_MB = 100"

definition isVideoMime :: "File \<Rightarrow> bool" where
  "isVideoMime f = startsWith (file_type f) ''video/''"

text \<open>
  The regular expression \<^verbatim>\<open>/\.(mp4|webm|ogg|mov|mkv)$/i\<close>: one of the five extensions
  after a dot, at the end of the input. With the flag \<^verbatim>\<open>i\<close> two code units match when
  their canonical forms are equal: the upper-case form of the code unit, unless that
  would turn a code unit from 128 on into one below 128. For the code units below 256:
  a-z and the Latin-1 small letters (0xE0-0xFE without the division sign 0xF7) go 32
  down, 0xFF goes to 0x178, 0xB5 to 0x39C, everything else stays.
\<close>

definition Canonicalize :: "char \<Rightarrow> nat" where
  "Canonicalize c =
     (let n = (of_char c :: nat)
      in if (97 \<le> n \<and> n \<le> 122) \<or> (224 \<le> n \<and> n \<le> 254 \<and> n \<noteq> 247) then n - 32
         else if n = 255 then 376
         else if n = 181 then 924
         else n)"

definition matches_at_end :: "string \<Rightarrow> string \<Rightarrow> bool" where
  "matches_at_end pattern s =
     (length pattern \<le> length s \<and>
      map Canonicalize (drop (length s - length pattern) s) = map Canonicalize pattern)"

definition video_extensions :: "string list" where
  "video_extensions = [''mp4'', ''webm'', ''ogg'', ''mov'', ''mkv'']"

definition hasVideoExtension :: "File \<Rightarrow> bool" where
  "hasVideoExtension f =
     list_ex (\<lambda>ext. matches_at_end (CHR ''.'' # ext) (file_name f)) video_extensions"

text \<open>
  \<^verbatim>\<open>x.toFixed(1)\<close> for \<open>0 \<le> x < 10\<^sup>2\<^sup>1\<close>: the integer \<open>n\<close> with \<open>n / 10\<close> nearest to
  \<open>x\<close> (the larger of two), printed with a point before its last digit. The quotient
  \<^verbatim>\<open>file.size / (1024 * 1024)\<close> is exact in a double for every size below \<open>2\<^sup>5\<^sup>3\<close>, so
  \<open>x\<close> is the rational quotient.
\<close>

definition toFixed1 :: "rat \<Rightarrow> string" where
  "toFixed1 x =
     (let n = nat \<lfloor>10 * x + 1 / 2\<rfloor>
      in show_nat (n div 10) @ ''.'' @ show_nat (n mod 10))"

definition unsupported_format_message :: "File \<Rightarrow> string" where
  "unsupported_format_message f =
     ''\"'' @ file_name f @
     ''\" does not appear to be a supported video format. Please use MP4, WebM, or OGG.''"

definition empty_file_message :: string where
  "empty_file_message =
     ''The selected file is empty (0 bytes). Please upload a valid video file.''"

definition actualSizeMB :: "File \<Rightarrow> string" where
  "actualSizeMB f = toFixed1 (of_nat (file_size f) / (1024 * 1024))"

definition too_large_message :: "File \<Rightarrow> string" where
  "too_large_message f =
     ''File is too large ('' @ actualSizeMB f @ ''MB). Please select a video smaller than '' @
     show_nat MAX_FILE_SIZE_MB @ ''MB to ensure smooth analysis.''"

definition critical_error_message :: string where
  "critical_error_message =
     ''Encountered a critical error while preparing the video file. The file might be corrupted or in an incompatible format.''"

text \<open>
  The handler, for the current \<^verbatim>\<open>videoSrc\<close>, the file chosen (\<open>None\<close>: the selection was
  cancelled) and what \<^verbatim>\<open>URL.createObjectURL\<close> does when called (\<open>None\<close>: it throws;
  \<open>Some url\<close>: it returns \<open>url\<close>).
\<close>

definition handleFileUpload :: "string \<Rightarrow> string option \<Rightarrow> File option \<Rightarrow> effect list" where
  "handleFileUpload src created chosen =
     SetError None #
     (case chosen of
        None \<Rightarrow> []
      | Some f \<Rightarrow>
          if \<not> isVideoMime f \<and> \<not> hasVideoExtension f
          then [SetError (Some (unsupported_format_message f))]
          else if file_size f = 0 then [SetError (Some empty_file_message)]
          else if file_size f > MAX_FILE_SIZE_MB * 1024 * 1024
          then [SetError (Some (too_large_message f))]
          else (if src \<noteq> [] \<and> startsWith src ''blob:'' then [RevokeObjectURL src] else []) @
               CreateObjectURL #
               (case created of
                  None \<Rightarrow> [SetError (Some critical_error_message)]
                | Some url \<Rightarrow>
                    if url = [] then [SetError (Some critical_error_message)]
                    else [SetVideoSrc url, SetDetections [], SetHasUploaded True,
                          SetError None]))"

section \<open>Example inputs\<close>

text \<open>
  A product as the response schema of the request describes it: the five required
  properties, in the schema's order.
\<close>

definition schema_product :: "string \<Rightarrow> string \<Rightarrow> string \<Rightarrow> real list \<Rightarrow> real \<Rightarrow> js_value" where
  "schema_product i n c b r =
     JObject [(''id'', JString i), (''name'', JString n), (''category'', JString c),
              (''box'', JArray (map JNumber b)), (''confidence'', JNumber r)]"

definition response_of :: "string \<Rightarrow> js_value \<Rightarrow> runtime" where
  "response_of raw parsed =
     \<lparr>generateContent = Inr (Some raw), JSON_parse = Inr parsed,
      TypeError_message = ''Cannot read properties of undefined'',
      Number_toString = (\<lambda>r. ''0'')\<rparr>"

text \<open>The service answers with one desk lamp, in the category "constructor".\<close>

definition lamp_response :: runtime where
  "lamp_response =
     response_of
       ''{\"products\":[{\"id\":\"1\",\"name\":\"Desk lamp\",\"category\":\"constructor\",\"box\":[100,200,400,600],\"confidence\":0.9}]}''
       (JObject [(''products'',
          JArray [schema_product ''1'' ''Desk lamp'' ''constructor'' [100, 200, 400, 600] 0.9])])"

text \<open>The service answers with an object that has no products.\<close>

definition no_products_response :: runtime where
  "no_products_response = response_of ''{}'' (JObject [])"

text \<open>The service answers with the JSON text \<^verbatim>\<open>null\<close>.\<close>

definition null_response :: runtime where
  "null_response =
     \<lparr>generateContent = Inr (Some ''null''), JSON_parse = Inr JNull,
      TypeError_message = ''Cannot read properties of null'',
      Number_toString = (\<lambda>r. ''0'')\<rparr>"

text \<open>The service answers with text that is no JSON.\<close>

definition not_json_response :: runtime where
  "not_json_response =
     \<lparr>generateContent = Inr (Some ''Sorry, no products.''),
      JSON_parse = Inl ''Unexpected token S in JSON at position 0'',
      TypeError_message = ''Cannot read properties of undefined'',
      Number_toString = (\<lambda>r. ''0'')\<rparr>"

definition notes_txt :: File where
  "notes_txt = \<lparr>file_name = ''notes.txt'', file_type = ''text/plain'', file_size = 0\<rparr>"

definition archive_zip :: File where
  "archive_zip =
     \<lparr>file_name = ''archive.zip'', file_type = ''application/zip'', file_size = 209715200\<rparr>"

definition empty_clip :: File where
  "empty_clip = \<lparr>file_name = ''clip.mp4'', file_type = ''video/mp4'', file_size = 0\<rparr>"

definition long_clip :: File where
  "long_clip = \<lparr>file_name = ''long.mp4'', file_type = ''video/mp4'', file_size = 209715200\<rparr>"

definition holiday_mov :: File where
  "holiday_mov = \<lparr>file_name = ''holiday.MOV'', file_type = [], file_size = 5242880\<rparr>"

definition capture_of :: "nat \<Rightarrow> nat \<Rightarrow> string option \<Rightarrow> runtime \<Rightarrow> capture" where
  "capture_of w h url rt =
     \<lparr>videoRef = Some \<lparr>videoWidth = w, videoHeight = h\<rparr>, canvasRef = True,
      getContext2d = True, drawImage = None, toDataURL = url, service = rt\<rparr>"

text \<open>A detection of the declared type, with the box of the specification's example.\<close>

definition boxed_product :: DetectedProduct where
  "boxed_product =
     \<lparr>id' = ''1'', name = ''Desk lamp'', category = ''electronics'', confidence = 0.9,
      box = \<lparr>ymin = 100, xmin = 200, ymax = 400, xmax = 600\<rparr>,
      shoppingLink = ''https://www.bestbuy.com/site/searchpage.jsp?st=Desk%20lamp''\<rparr>"

text \<open>The service answers with an empty text.\<close>

definition empty_response :: runtime where
  "empty_response =
     \<lparr>generateContent = Inr (Some []), JSON_parse = Inl ''Unexpected end of JSON input'',
      TypeError_message = ''Cannot read properties of undefined'',
      Number_toString = (\<lambda>r. ''0'')\<rparr>"

section \<open>Facts about the string functions\<close>

lemma startsWith_iff: "startsWith s p \<longleftrightarrow> (\<exists>rest. s = p @ rest)"
  by (induction s p rule: startsWith.induct) auto

lemma startsWith_append: "startsWith (p @ rest) p"
  by (simp add: startsWith_iff)

lemma includes_str_prefix: "includes_str (ys @ zs) ys"
proof (cases "ys @ zs")
  case Nil
  then show ?thesis by simp
next
  case (Cons a l)
  have "startsWith (a # l) ys"
    using startsWith_append [of ys zs] by (simp only: Cons)
  then show ?thesis by (simp add: Cons)
qed

lemma includes_str_append: "includes_str (xs @ ys @ zs) ys"
proof (induction xs)
  case Nil
  show ?case by (simp add: includes_str_prefix)
next
  case (Cons x xs)
  then show ?case by simp
qed

lemma of_char_less_256: "(of_char c :: nat) < 256"
proof -
  have "(of_char c :: nat) = of_char (char_of (of_char c :: nat))" by simp
  also have "\<dots> = (of_char c :: nat) mod 256" by (simp only: of_char_of)
  finally have "(of_char c :: nat) = (of_char c :: nat) mod 256" .
  then show ?thesis by (metis mod_less_divisor zero_less_numeral)
qed

lemma toLowerCase_unit_idem: "toLowerCase_unit (toLowerCase_unit c) = toLowerCase_unit c"
  using of_char_less_256 [of c]
  by (auto simp: toLowerCase_unit_def Let_def)

lemma toLowerCase_idem: "toLowerCase (toLowerCase s) = toLowerCase s"
  by (simp add: toLowerCase_def toLowerCase_unit_idem)

lemma of_char_toLowerCase_unit:
  "(of_char (toLowerCase_unit c) :: nat) =
     (if (65 \<le> (of_char c :: nat) \<and> (of_char c :: nat) \<le> 90) \<or>
         (192 \<le> (of_char c :: nat) \<and> (of_char c :: nat) \<le> 222 \<and> (of_char c :: nat) \<noteq> 215)
      then of_char c + 32 else of_char c)"
  by (simp add: toLowerCase_unit_def Let_def)

lemma canon_lower_letter:
  fixes n k :: nat
  assumes "97 \<le> k" "k \<le> 122" "n < 256"
  shows "((if (97 \<le> n \<and> n \<le> 122) \<or> (224 \<le> n \<and> n \<le> 254 \<and> n \<noteq> 247) then n - 32
       else if n = 255 then 376 else if n = 181 then 924 else n) = k - 32) \<longleftrightarrow>
      ((if (65 \<le> n \<and> n \<le> 90) \<or> (192 \<le> n \<and> n \<le> 222 \<and> n \<noteq> 215) then n + 32 else n) = k)"
  using assms by (simp split: if_splits) arith

lemma canon_lower_other:
  fixes n k :: nat
  assumes "k = 46 \<or> (48 \<le> k \<and> k \<le> 57)" "n < 256"
  shows "((if (97 \<le> n \<and> n \<le> 122) \<or> (224 \<le> n \<and> n \<le> 254 \<and> n \<noteq> 247) then n - 32
       else if n = 255 then 376 else if n = 181 then 924 else n) = k) \<longleftrightarrow>
      ((if (65 \<le> n \<and> n \<le> 90) \<or> (192 \<le> n \<and> n \<le> 222 \<and> n \<noteq> 215) then n + 32 else n) = k)"
  using assms by (simp split: if_splits) arith

lemma Canonicalize_matches:
  fixes x c :: char
  assumes "(97 \<le> (of_char x :: nat) \<and> (of_char x :: nat) \<le> 122) \<or> (of_char x :: nat) = 46 \<or>
           (48 \<le> (of_char x :: nat) \<and> (of_char x :: nat) \<le> 57)"
  shows "Canonicalize c = Canonicalize x \<longleftrightarrow> toLowerCase_unit c = x"
proof -
  define n :: nat where "n = of_char c"
  define k :: nat where "k = of_char x"
  have lt: "n < 256" using of_char_less_256 [of c] by (simp add: n_def)
  have "toLowerCase_unit c = x \<longleftrightarrow> (of_char (toLowerCase_unit c) :: nat) = of_char x"
    by simp
  also have "\<dots> \<longleftrightarrow>
      (if (65 \<le> n \<and> n \<le> 90) \<or> (192 \<le> n \<and> n \<le> 222 \<and> n \<noteq> 215) then n + 32 else n) = k"
    by (simp only: of_char_toLowerCase_unit n_def k_def)
  finally have low: "toLowerCase_unit c = x \<longleftrightarrow>
      (if (65 \<le> n \<and> n \<le> 90) \<or> (192 \<le> n \<and> n \<le> 222 \<and> n \<noteq> 215) then n + 32 else n) = k" .
  have cn: "Canonicalize c =
      (if (97 \<le> n \<and> n \<le> 122) \<or> (224 \<le> n \<and> n \<le> 254 \<and> n \<noteq> 247) then n - 32
       else if n = 255 then 376 else if n = 181 then 924 else n)"
    by (simp only: Canonicalize_def Let_def n_def)
  from assms consider (letter) "97 \<le> k" "k \<le> 122" | (other) "k = 46 \<or> (48 \<le> k \<and> k \<le> 57)"
    unfolding k_def by blast
  then show ?thesis
  proof cases
    case letter
    then have "Canonicalize x = k - 32"
      by (simp add: Canonicalize_def Let_def k_def)
    then show ?thesis
      unfolding low cn using canon_lower_letter [OF letter lt] by simp
  next
    case other
    then have "Canonicalize x = k"
      by (auto simp: Canonicalize_def Let_def k_def)
    then show ?thesis
      unfolding low cn using canon_lower_other [OF other lt] by simp
  qed
qed

lemma map_Canonicalize_matches:
  assumes "\<forall>x \<in> set pat. (97 \<le> (of_char x :: nat) \<and> (of_char x :: nat) \<le> 122) \<or>
             (of_char x :: nat) = 46 \<or> (48 \<le> (of_char x :: nat) \<and> (of_char x :: nat) \<le> 57)"
  shows "map Canonicalize s = map Canonicalize pat \<longleftrightarrow> toLowerCase s = pat"
  using assms
proof (induction s arbitrary: pat)
  case Nil
  then show ?case by (auto simp: toLowerCase_def)
next
  case (Cons c s)
  show ?case
  proof (cases pat)
    case Nil
    then show ?thesis by (simp add: toLowerCase_def)
  next
    case (Cons x pat')
    have "Canonicalize c = Canonicalize x \<longleftrightarrow> toLowerCase_unit c = x"
      using Cons.prems Cons by (intro Canonicalize_matches) simp
    moreover have "map Canonicalize s = map Canonicalize pat' \<longleftrightarrow> toLowerCase s = pat'"
      using Cons.prems Cons by (intro Cons.IH) simp
    ultimately show ?thesis
      by (simp add: Cons toLowerCase_def)
  qed
qed

lemma matches_at_end_iff:
  assumes "\<forall>x \<in> set pat. (97 \<le> (of_char x :: nat) \<and> (of_char x :: nat) \<le> 122) \<or>
             (of_char x :: nat) = 46 \<or> (48 \<le> (of_char x :: nat) \<and> (of_char x :: nat) \<le> 57)"
  shows "matches_at_end pat s \<longleftrightarrow> (\<exists>stem tail. s = stem @ tail \<and> toLowerCase tail = pat)"
proof
  assume m: "matches_at_end pat s"
  then have "toLowerCase (drop (length s - length pat) s) = pat"
    using map_Canonicalize_matches [OF assms] by (simp add: matches_at_end_def)
  moreover have "s = take (length s - length pat) s @ drop (length s - length pat) s"
    by simp
  ultimately show "\<exists>stem tail. s = stem @ tail \<and> toLowerCase tail = pat"
    by blast
next
  assume "\<exists>stem tail. s = stem @ tail \<and> toLowerCase tail = pat"
  then obtain stem tail where s: "s = stem @ tail" and t: "toLowerCase tail = pat"
    by blast
  have len: "length tail = length pat"
    using t by (auto simp: toLowerCase_def)
  have "map Canonicalize tail = map Canonicalize pat"
    using map_Canonicalize_matches [OF assms] t by simp
  then show "matches_at_end pat s"
    by (simp add: matches_at_end_def s len)
qed

lemma hasVideoExtension_iff:
  "hasVideoExtension f \<longleftrightarrow>
     (\<exists>stem ext. file_name f = stem @ ''.'' @ ext \<and> toLowerCase ext \<in> set video_extensions)"
proof -
  have ok: "\<forall>x \<in> set (CHR ''.'' # e). (97 \<le> (of_char x :: nat) \<and> (of_char x :: nat) \<le> 122) \<or>
             (of_char x :: nat) = 46 \<or> (48 \<le> (of_char x :: nat) \<and> (of_char x :: nat) \<le> 57)"
    if "e \<in> set video_extensions" for e
    using that by (auto simp: video_extensions_def)
  have dot: "toLowerCase_unit d = CHR ''.'' \<longleftrightarrow> d = CHR ''.''" for d
  proof -
    have "toLowerCase_unit d = CHR ''.'' \<longleftrightarrow>
          (of_char (toLowerCase_unit d) :: nat) = of_char (CHR ''.'')"
      by (simp only: of_char_eq_iff)
    also have "\<dots> \<longleftrightarrow> (of_char d :: nat) = of_char (CHR ''.'')"
      by (simp add: of_char_toLowerCase_unit)
    also have "\<dots> \<longleftrightarrow> d = CHR ''.''"
      by (simp only: of_char_eq_iff)
    finally show ?thesis .
  qed
  show ?thesis
  proof
    assume "hasVideoExtension f"
    then obtain e where e: "e \<in> set video_extensions"
      and m: "matches_at_end (CHR ''.'' # e) (file_name f)"
      by (auto simp: hasVideoExtension_def list_ex_iff)
    from m obtain stem tail where st: "file_name f = stem @ tail"
      and low: "toLowerCase tail = CHR ''.'' # e"
      using matches_at_end_iff [OF ok [OF e]] by blast
    from low obtain d t where t: "tail = d # t" "toLowerCase_unit d = CHR ''.''" "toLowerCase t = e"
      by (auto simp: toLowerCase_def)
    then have "file_name f = stem @ ''.'' @ t"
      using st dot by simp
    then show "\<exists>stem ext. file_name f = stem @ ''.'' @ ext \<and> toLowerCase ext \<in> set video_extensions"
      using t e by blast
  next
    assume "\<exists>stem ext. file_name f = stem @ ''.'' @ ext \<and> toLowerCase ext \<in> set video_extensions"
    then obtain stem ext where st: "file_name f = stem @ ''.'' @ ext"
      and e: "toLowerCase ext \<in> set video_extensions"
      by blast
    have "toLowerCase (CHR ''.'' # ext) = CHR ''.'' # toLowerCase ext"
      using dot [of "CHR ''.''"] by (simp add: toLowerCase_def)
    then have "matches_at_end (CHR ''.'' # toLowerCase ext) (file_name f)"
      using matches_at_end_iff [OF ok [OF e]] st by auto
    then show "hasVideoExtension f"
      using e by (auto simp: hasVideoExtension_def list_ex_iff)
  qed
qed

section \<open>The overlay geometry\<close>

lemma product_rectangle_geometry:
  "style_top (product_rectangle p) = Percent (of_int (ymin (box p)) / 10) \<and>
   style_left (product_rectangle p) = Percent (of_int (xmin (box p)) / 10) \<and>
   style_width (product_rectangle p) = Percent (of_int (xmax (box p) - xmin (box p)) / 10) \<and>
   style_height (product_rectangle p) = Percent (of_int (ymax (box p) - ymin (box p)) / 10)"
  by (simp add: product_rectangle_def)

lemma detect_product_schema:
  "detect_product rt (schema_product i n c [a, b, c', d] r) =
     Inr (JObject [(''id'', JString i), (''name'', JString n), (''category'', JString c),
            (''box'', JObject [(''ymin'', JNumber a), (''xmin'', JNumber b),
                               (''ymax'', JNumber c'), (''xmax'', JNumber d)]),
            (''confidence'', JNumber r),
            (''shoppingLink'', JString (template_text (baseUrl_for c) @ encodeURIComponent n))])"
  by (simp add: detect_product_def schema_product_def Let_def)

lemma as_DetectedProduct_detected:
  "as_DetectedProduct
     (JObject [(''id'', JString i), (''name'', JString n), (''category'', JString c),
            (''box'', JObject [(''ymin'', JNumber (of_int a)), (''xmin'', JNumber (of_int b)),
                               (''ymax'', JNumber (of_int c')), (''xmax'', JNumber (of_int d))]),
            (''confidence'', JNumber r), (''shoppingLink'', JString l)]) =
   Some \<lparr>id' = i, name = n, category = c, confidence = r,
         box = \<lparr>ymin = a, xmin = b, ymax = c', xmax = d\<rparr>, shoppingLink = l\<rparr>"
  by (simp add: as_DetectedProduct_def as_BoundingBox_def)

text \<open>
  Claim C1, for boxes with integer coordinates. When the overlay is not processing, it
  renders one rectangle for each detected product, and the rectangle of a product whose
  coordinates are on the scale from 0 to 1000 has top = ymin / 10 %, left = xmin / 10 %,
  width = (xmax - xmin) / 10 % and height = (ymax - ymin) / 10 %. In particular a
  product that the service reports with the box [100, 200, 400, 600] is mapped by
  \<^verbatim>\<open>detectProducts\<close> to a detection whose rectangle has top = 10 %, left = 20 %, width =
  40 % and height = 30 %.
\<close>

theorem overlay_geometry:
  "(\<not> processing \<and> i < length detected \<and> on_scale (box (detected ! i)) \<longrightarrow>
      (\<exists>rs. DetectionOverlay detected processing = BoundingBoxes rs \<and>
            length rs = length detected \<and>
            style_top (rs ! i) = Percent (of_int (ymin (box (detected ! i))) / 10) \<and>
            style_left (rs ! i) = Percent (of_int (xmin (box (detected ! i))) / 10) \<and>
            style_width (rs ! i) =
              Percent (of_int (xmax (box (detected ! i)) - xmin (box (detected ! i))) / 10) \<and>
            style_height (rs ! i) =
              Percent (of_int (ymax (box (detected ! i)) - ymin (box (detected ! i))) / 10))) \<and>
   (\<exists>v p r. detect_product rt (schema_product pid n c [100, 200, 400, 600] conf) = Inr v \<and>
            as_DetectedProduct v = Some p \<and>
            DetectionOverlay [p] False = BoundingBoxes [r] \<and>
            style_top r = Percent 10 \<and> style_left r = Percent 20 \<and>
            style_width r = Percent 40 \<and> style_height r = Percent 30)"
proof (intro conjI impI)
  assume a: "\<not> processing \<and> i < length detected \<and> on_scale (box (detected ! i))"
  then have "detected \<noteq> []" by auto
  with a have "DetectionOverlay detected processing = BoundingBoxes (map product_rectangle detected)"
    by (simp add: DetectionOverlay_def)
  moreover have "map product_rectangle detected ! i = product_rectangle (detected ! i)"
    using a by simp
  ultimately show "\<exists>rs. DetectionOverlay detected processing = BoundingBoxes rs \<and>
            length rs = length detected \<and>
            style_top (rs ! i) = Percent (of_int (ymin (box (detected ! i))) / 10) \<and>
            style_left (rs ! i) = Percent (of_int (xmin (box (detected ! i))) / 10) \<and>
            style_width (rs ! i) =
              Percent (of_int (xmax (box (detected ! i)) - xmin (box (detected ! i))) / 10) \<and>
            style_height (rs ! i) =
              Percent (of_int (ymax (box (detected ! i)) - ymin (box (detected ! i))) / 10)"
    using product_rectangle_geometry [of "detected ! i"] by simp
next
  show "\<exists>v p r. detect_product rt (schema_product pid n c [100, 200, 400, 600] conf) = Inr v \<and>
            as_DetectedProduct v = Some p \<and>
            DetectionOverlay [p] False = BoundingBoxes [r] \<and>
            style_top r = Percent 10 \<and> style_left r = Percent 20 \<and>
            style_width r = Percent 40 \<and> style_height r = Percent 30"
    by (simp add: detect_product_schema as_DetectedProduct_def as_BoundingBox_def
        DetectionOverlay_def product_rectangle_def)
qed

theorem overlay_geometry_witness:
  "\<not> False \<and> (0::nat) < length [boxed_product] \<and> on_scale (box boxed_product) \<and>
   (\<exists>rs. DetectionOverlay [boxed_product] False = BoundingBoxes rs \<and>
         length rs = 1 \<and>
         style_top (rs ! 0) = Percent 10 \<and> style_left (rs ! 0) = Percent 20 \<and>
         style_width (rs ! 0) = Percent 40 \<and> style_height (rs ! 0) = Percent 30)"
  using overlay_geometry [of False 0 "[boxed_product]" lamp_response "''1''" "''Desk lamp''"
      "''electronics''" "0.9"]
  by (simp add: boxed_product_def on_scale_def)

section \<open>Resuming playback\<close>

text \<open>
  Claim C7. From every state, the play handler leaves the detection list empty and the
  error message \<^verbatim>\<open>null\<close> (and \<^verbatim>\<open>isPaused\<close> false).
\<close>

theorem handlePlay_clears:
  "detections (run st handlePlay) = [] \<and> error (run st handlePlay) = None \<and>
   isPaused (run st handlePlay) = False"
  by (simp add: run_def handlePlay_def)

section \<open>The detection client on empty, missing and malformed responses\<close>

lemma rethrown_empty_response:
  "rethrown_message ''The AI model returned an empty response.'' =
     ''The AI model returned an empty response.''"
  by (simp add: rethrown_message_def)

lemma detectProducts_no_array:
  assumes "generateContent rt = Inr (Some raw)" and "raw \<noteq> []"
    and "JSON_parse rt = Inr result" and "get_property result ''products'' = Some ps"
    and "\<not> (truthy ps \<and> isArray ps)"
  shows "detectProducts rt = Inr \<lparr>products = []\<rparr>"
  using assms by (auto simp: detectProducts_def detect_try_def)

lemma detectProducts_empty_array:
  assumes "generateContent rt = Inr (Some raw)" and "raw \<noteq> []"
    and "JSON_parse rt = Inr result" and "get_property result ''products'' = Some (JArray [])"
  shows "detectProducts rt = Inr \<lparr>products = []\<rparr>"
  using assms by (simp add: detectProducts_def detect_try_def)

lemma detectProducts_empty_text:
  assumes "generateContent rt = Inr None \<or> generateContent rt = Inr (Some [])"
  shows "detectProducts rt = Inl ''The AI model returned an empty response.''"
  using assms by (auto simp: detectProducts_def detect_try_def rethrown_empty_response)

lemma detectProducts_not_json:
  assumes "generateContent rt = Inr (Some raw)" and "raw \<noteq> []" and "JSON_parse rt = Inl m"
  shows "detectProducts rt = Inl (rethrown_message m)"
  using assms by (simp add: detectProducts_def detect_try_def)

text \<open>
  Claim C2, as the code has it. For a response text that is not empty and that
  \<^verbatim>\<open>JSON.parse\<close> accepts: when the parsed value is not \<^verbatim>\<open>null\<close> and its \<^verbatim>\<open>products\<close> property is
  missing, falsy or no array, \<^verbatim>\<open>detectProducts\<close> returns no detections. An empty or absent
  response text makes the call fail with the empty-response message. A text that is not
  empty and that \<^verbatim>\<open>JSON.parse\<close> rejects makes the call fail as well, with the message the
  \<^verbatim>\<open>catch\<close> block derives from the parser's: the empty text is not the only one that
  fails.
\<close>

theorem detectProducts_degrades_or_fails:
  "(generateContent rt = Inr (Some raw) \<and> raw \<noteq> [] \<and> JSON_parse rt = Inr result \<and>
    get_property result ''products'' = Some ps \<and> \<not> (truthy ps \<and> isArray ps) \<longrightarrow>
      detectProducts rt = Inr \<lparr>products = []\<rparr>) \<and>
   (generateContent rt = Inr None \<or> generateContent rt = Inr (Some []) \<longrightarrow>
      detectProducts rt = Inl ''The AI model returned an empty response.'') \<and>
   (generateContent rt = Inr (Some raw) \<and> raw \<noteq> [] \<and> JSON_parse rt = Inl m \<longrightarrow>
      detectProducts rt = Inl (rethrown_message m))"
  using detectProducts_no_array [of rt raw result ps] detectProducts_empty_text [of rt]
    detectProducts_not_json [of rt raw m]
  by blast

theorem detectProducts_degrades_or_fails_witness:
  "generateContent no_products_response = Inr (Some ''{}'') \<and>
   JSON_parse no_products_response = Inr (JObject []) \<and>
   detectProducts no_products_response = Inr \<lparr>products = []\<rparr> \<and>
   generateContent empty_response = Inr (Some []) \<and>
   detectProducts empty_response = Inl ''The AI model returned an empty response.'' \<and>
   generateContent not_json_response = Inr (Some ''Sorry, no products.'') \<and>
   JSON_parse not_json_response = Inl ''Unexpected token S in JSON at position 0'' \<and>
   detectProducts not_json_response = Inl ''Unexpected token S in JSON at position 0''"
  using detectProducts_degrades_or_fails [of no_products_response "''{}''" "JObject []" JUndefined]
    detectProducts_degrades_or_fails [of empty_response]
    detectProducts_degrades_or_fails [of not_json_response "''Sorry, no products.''" _ _
      "''Unexpected token S in JSON at position 0''"]
  by (simp add: no_products_response_def response_of_def empty_response_def
      not_json_response_def rethrown_message_def)

text \<open>
  Claim C2 as stated fails: the text \<^verbatim>\<open>Sorry, no products.\<close> is not empty, \<^verbatim>\<open>JSON.parse\<close>
  throws a SyntaxError on it, and \<^verbatim>\<open>detectProducts\<close> fails with the parser's message
  instead of returning no detections.
\<close>

theorem not_json_response_fails:
  "generateContent not_json_response = Inr (Some ''Sorry, no products.'') \<and>
   detectProducts not_json_response = Inl ''Unexpected token S in JSON at position 0''"
  by (simp add: detectProducts_def detect_try_def not_json_response_def rethrown_message_def)

text \<open>
  Responses without products, other than \<^verbatim>\<open>null\<close>. For a parsed response other than
  \<^verbatim>\<open>null\<close> whose \<^verbatim>\<open>products\<close> property is missing or an empty list, \<^verbatim>\<open>detectProducts\<close>
  returns an empty product list; the overlay renders \<^verbatim>\<open>null\<close> for an empty list when not
  processing, and never any rectangle for it; and after a pause whose capture gets this
  response (or fails before it), the view holds no detections and \<^verbatim>\<open>App\<close> renders no
  overlay.
\<close>

lemma empty_or_missing_products_render_nothing:
  "generateContent rt = Inr (Some raw) \<and> raw \<noteq> [] \<and> JSON_parse rt = Inr result \<and>
   result \<noteq> JNull \<and> result \<noteq> JUndefined \<and>
   (field result ''products'' = None \<or> field result ''products'' = Some (JArray [])) \<longrightarrow>
     detectProducts rt = Inr \<lparr>products = []\<rparr> \<and>
     DetectionOverlay [] False = NoOverlay \<and>
     (\<forall>processing rs. DetectionOverlay [] processing \<noteq> BoundingBoxes rs) \<and>
     (service env = rt \<and> videoRef env = Some video \<and> canvasRef env \<and> getContext2d env \<and>
      0 < videoWidth video \<and> 0 < videoHeight video \<longrightarrow>
        detections (run st (handlePause env)) = [] \<and>
        App_overlay (run st (handlePause env)) = Some NoOverlay)"
proof (intro impI)
  assume a: "generateContent rt = Inr (Some raw) \<and> raw \<noteq> [] \<and> JSON_parse rt = Inr result \<and>
   result \<noteq> JNull \<and> result \<noteq> JUndefined \<and>
   (field result ''products'' = None \<or> field result ''products'' = Some (JArray []))"
  then have "get_property result ''products'' = Some JUndefined \<or>
             get_property result ''products'' = Some (JArray [])"
    by (cases result) auto
  then have d: "detectProducts rt = Inr \<lparr>products = []\<rparr>"
  proof
    assume "get_property result ''products'' = Some JUndefined"
    with a show ?thesis
      using detectProducts_no_array [of rt raw result JUndefined] by simp
  next
    assume "get_property result ''products'' = Some (JArray [])"
    with a show ?thesis
      using detectProducts_empty_array [of rt raw result] by simp
  qed
  have o: "DetectionOverlay [] processing \<noteq> BoundingBoxes rs" for processing rs
    by (simp add: DetectionOverlay_def)
  have p: "detections (run st (handlePause env)) = [] \<and>
           App_overlay (run st (handlePause env)) = Some NoOverlay"
    if e: "service env = rt \<and> videoRef env = Some video \<and> canvasRef env \<and> getContext2d env \<and>
      0 < videoWidth video \<and> 0 < videoHeight video"
  proof -
    have "detections (run st (handlePause env)) = [] \<and>
          isProcessing (run st (handlePause env)) = False"
      using e d
      by (cases "drawImage env"; cases "toDataURL env")
         (simp_all add: run_def handlePause_def captureFrame_def capture_try_def capture_catch_def)
    then show ?thesis
      by (simp add: App_overlay_def DetectionOverlay_def)
  qed
  show "detectProducts rt = Inr \<lparr>products = []\<rparr> \<and>
     DetectionOverlay [] False = NoOverlay \<and>
     (\<forall>processing rs. DetectionOverlay [] processing \<noteq> BoundingBoxes rs) \<and>
     (service env = rt \<and> videoRef env = Some video \<and> canvasRef env \<and> getContext2d env \<and>
      0 < videoWidth video \<and> 0 < videoHeight video \<longrightarrow>
        detections (run st (handlePause env)) = [] \<and>
        App_overlay (run st (handlePause env)) = Some NoOverlay)"
    using d o p by (simp add: DetectionOverlay_def)
qed

lemma empty_or_missing_products_render_nothing_example:
  "generateContent no_products_response = Inr (Some ''{}'') \<and>
   JSON_parse no_products_response = Inr (JObject []) \<and>
   field (JObject []) ''products'' = None \<and>
   detectProducts no_products_response = Inr \<lparr>products = []\<rparr> \<and>
   DetectionOverlay [] False = NoOverlay \<and>
   App_overlay (run initial_state
     (handlePause (capture_of 1280 720 (Some ''data:image/jpeg;base64,AAAA'') no_products_response)))
     = Some NoOverlay"
  using empty_or_missing_products_render_nothing [of no_products_response "''{}''" "JObject []"
      "capture_of 1280 720 (Some ''data:image/jpeg;base64,AAAA'') no_products_response"
      "\<lparr>videoWidth = 1280, videoHeight = 720\<rparr>" initial_state]
  by (simp add: no_products_response_def response_of_def capture_of_def)

text \<open>
  Claim C5 at the response \<^verbatim>\<open>null\<close>. The text \<^verbatim>\<open>null\<close> is not empty and \<^verbatim>\<open>JSON.parse\<close>
  returns \<^verbatim>\<open>null\<close> for it, a response that has no products. The claim expects an empty
  product list. The read \<^verbatim>\<open>result.products\<close> of line 73 throws a TypeError before the
  guard can return the empty list, so \<^verbatim>\<open>detectProducts\<close> fails with the engine's message.
  The capture reports that message as an error; the view holds no detections and
  \<^verbatim>\<open>App\<close> renders no overlay.
\<close>

theorem null_response_throws:
  "generateContent null_response = Inr (Some ''null'') \<and>
   JSON_parse null_response = Inr JNull \<and>
   field JNull ''products'' = None \<and>
   detectProducts null_response = Inl ''Cannot read properties of null'' \<and>
   error (run initial_state
     (handlePause (capture_of 1280 720 (Some ''data:image/jpeg;base64,AAAA'') null_response)))
     = Some ''Cannot read properties of null'' \<and>
   App_overlay (run initial_state
     (handlePause (capture_of 1280 720 (Some ''data:image/jpeg;base64,AAAA'') null_response)))
     = Some NoOverlay"
proof -
  have d: "detectProducts null_response = Inl ''Cannot read properties of null''"
    by (simp add: detectProducts_def detect_try_def null_response_def rethrown_message_def)
  have g: "generateContent null_response = Inr (Some ''null'') \<and>
           JSON_parse null_response = Inr JNull"
    by (simp add: null_response_def)
  have c: "error (run initial_state
     (handlePause (capture_of 1280 720 (Some ''data:image/jpeg;base64,AAAA'') null_response)))
     = Some ''Cannot read properties of null'' \<and>
   App_overlay (run initial_state
     (handlePause (capture_of 1280 720 (Some ''data:image/jpeg;base64,AAAA'') null_response)))
     = Some NoOverlay"
    by (simp add: d run_def handlePause_def captureFrame_def capture_try_def capture_catch_def
        capture_of_def initial_state_def App_overlay_def DetectionOverlay_def)
  show ?thesis
    using d g c by simp
qed

section \<open>Search links\<close>

text \<open>
  The lookup of the base URL is case-insensitive; a category whose lower-case form is a
  key of the table gets the table's URL; one whose lower-case form is neither a key nor
  the name of a member of \<^verbatim>\<open>Object.prototype\<close> gets the default URL.
\<close>

lemma baseUrl_for_case_insensitive: "baseUrl_for c = baseUrl_for (toLowerCase c)"
  by (simp add: baseUrl_for_def toLowerCase_idem)

lemma baseUrl_for_default:
  assumes "toLowerCase c \<notin> {''fashion'', ''shoe'', ''electronics''}"
    and "toLowerCase c \<notin> set Object_prototype_names"
  shows "baseUrl_for c = OwnString ''https://www.google.com/search?q=buy+''"
  using assms by (simp add: baseUrl_for_def read_table_def SEARCH_BASE_URLS_def Let_def)

lemma baseUrl_for_table:
  assumes "map_of SEARCH_BASE_URLS (toLowerCase c) = Some url"
  shows "baseUrl_for c = OwnString url"
  using assms by (auto simp: baseUrl_for_def read_table_def SEARCH_BASE_URLS_def Let_def split: if_splits)

text \<open>
  Claim C4 at the category \<^verbatim>\<open>constructor\<close>. Its lower-case form is none of \<^verbatim>\<open>fashion\<close>,
  \<^verbatim>\<open>shoe\<close>, \<^verbatim>\<open>electronics\<close>, so the claim expects the default search URL. The read
  \<^verbatim>\<open>SEARCH_BASE_URLS["constructor"]\<close> finds the inherited function \<^verbatim>\<open>Object\<close>, which is
  truthy, so the default is not taken and the shopping link starts with the source text
  of that function.
\<close>

theorem constructor_category_link:
  "baseUrl_for ''constructor'' = Inherited ''constructor'' \<and>
   detectProducts lamp_response =
     Inr \<lparr>products =
       [JObject [(''id'', JString ''1''), (''name'', JString ''Desk lamp''),
          (''category'', JString ''constructor''),
          (''box'', JObject [(''ymin'', JNumber 100), (''xmin'', JNumber 200),
                             (''ymax'', JNumber 400), (''xmax'', JNumber 600)]),
          (''confidence'', JNumber 0.9),
          (''shoppingLink'', JString ''function Object() { [native code] }Desk%20lamp'')]]\<rparr>"
proof -
  have b: "baseUrl_for ''constructor'' = Inherited ''constructor''"
    by (simp add: baseUrl_for_def read_table_def SEARCH_BASE_URLS_def Object_prototype_names_def
        toLowerCase_def toLowerCase_unit_def)
  have e: "encodeURIComponent ''Desk lamp'' = ''Desk%20lamp''"
    by (simp add: encodeURIComponent_def encode_unit_def uriUnreserved_def percent_byte_def
        hex_digit_def)
  show ?thesis
    by (simp add: b e detectProducts_def detect_try_def lamp_response_def response_of_def
        detect_product_schema)
qed

section \<open>Capturing a frame\<close>

lemma captureFrame_zero_dimensions:
  assumes "videoRef env = Some video" and "canvasRef env" and "getContext2d env"
    and "videoWidth video = 0 \<or> videoHeight video = 0"
  shows "captureFrame env =
     [ResizeCanvas (videoWidth video) (videoHeight video),
      SetError (Some ''Video dimensions are invalid. Ensure the video is loaded properly.'')]"
  using assms by (auto simp: captureFrame_def)

lemma captureFrame_cors:
  assumes "videoRef env = Some video" and "canvasRef env" and "getContext2d env"
    and "0 < videoWidth video" and "0 < videoHeight video"
    and "drawImage env = None" and "toDataURL env = None"
  shows "captureFrame env =
     [ResizeCanvas (videoWidth video) (videoHeight video),
      SetError None, SetIsProcessing True, SetDetections [],
      DrawImage (videoWidth video) (videoHeight video),
      SetError (Some ''Cannot capture frame due to security restrictions (CORS). Please try a local file or a CORS-enabled URL.''),
      SetIsProcessing False]"
  using assms by (simp add: captureFrame_def capture_try_def capture_catch_def)

text \<open>
  Claim C8. In a capture that has its video element, canvas and 2D context: when the
  intrinsic width or height is zero, the only message reported is the invalid-dimensions
  error and no detection request is issued; when \<^verbatim>\<open>toDataURL\<close> throws (the frame cannot be
  serialised), the CORS message is reported, and again no request is issued.
\<close>

theorem capture_failures_reported:
  "videoRef env = Some video \<and> canvasRef env \<and> getContext2d env \<longrightarrow>
     (videoWidth video = 0 \<or> videoHeight video = 0 \<longrightarrow>
        captureFrame env =
          [ResizeCanvas (videoWidth video) (videoHeight video),
           SetError (Some ''Video dimensions are invalid. Ensure the video is loaded properly.'')] \<and>
        (\<forall>payload. DetectRequest payload \<notin> set (captureFrame env)) \<and>
        error (run st (captureFrame env)) =
          Some ''Video dimensions are invalid. Ensure the video is loaded properly.'') \<and>
     (0 < videoWidth video \<and> 0 < videoHeight video \<and> drawImage env = None \<and>
      toDataURL env = None \<longrightarrow>
        SetError (Some ''Cannot capture frame due to security restrictions (CORS). Please try a local file or a CORS-enabled URL.'')
          \<in> set (captureFrame env) \<and>
        (\<forall>payload. DetectRequest payload \<notin> set (captureFrame env)) \<and>
        error (run st (captureFrame env)) =
          Some ''Cannot capture frame due to security restrictions (CORS). Please try a local file or a CORS-enabled URL.'')"
proof (intro impI conjI)
  assume a: "videoRef env = Some video \<and> canvasRef env \<and> getContext2d env"
  {
    assume z: "videoWidth video = 0 \<or> videoHeight video = 0"
    have c: "captureFrame env =
          [ResizeCanvas (videoWidth video) (videoHeight video),
           SetError (Some ''Video dimensions are invalid. Ensure the video is loaded properly.'')]"
      using a z captureFrame_zero_dimensions [of env video] by blast
    show "captureFrame env =
          [ResizeCanvas (videoWidth video) (videoHeight video),
           SetError (Some ''Video dimensions are invalid. Ensure the video is loaded properly.'')]"
      by (rule c)
    show "\<forall>payload. DetectRequest payload \<notin> set (captureFrame env)"
      by (simp add: c)
    show "error (run st (captureFrame env)) =
          Some ''Video dimensions are invalid. Ensure the video is loaded properly.''"
      by (simp add: c run_def)
  }
  {
    assume n: "0 < videoWidth video \<and> 0 < videoHeight video \<and> drawImage env = None \<and>
      toDataURL env = None"
    have c: "captureFrame env =
     [ResizeCanvas (videoWidth video) (videoHeight video),
      SetError None, SetIsProcessing True, SetDetections [],
      DrawImage (videoWidth video) (videoHeight video),
      SetError (Some ''Cannot capture frame due to security restrictions (CORS). Please try a local file or a CORS-enabled URL.''),
      SetIsProcessing False]"
      using a n captureFrame_cors [of env video] by blast
    show "SetError (Some ''Cannot capture frame due to security restrictions (CORS). Please try a local file or a CORS-enabled URL.'')
          \<in> set (captureFrame env)"
      by (simp add: c)
    show "\<forall>payload. DetectRequest payload \<notin> set (captureFrame env)"
      by (simp add: c)
    show "error (run st (captureFrame env)) =
          Some ''Cannot capture frame due to security restrictions (CORS). Please try a local file or a CORS-enabled URL.''"
      by (simp add: c run_def)
  }
qed

theorem capture_failures_reported_witness:
  "captureFrame (capture_of 0 720 None no_products_response) =
     [ResizeCanvas 0 720,
      SetError (Some ''Video dimensions are invalid. Ensure the video is loaded properly.'')] \<and>
   error (run initial_state (captureFrame (capture_of 0 720 None no_products_response))) =
     Some ''Video dimensions are invalid. Ensure the video is loaded properly.'' \<and>
   toDataURL (capture_of 1280 720 None no_products_response) = None \<and>
   error (run initial_state (captureFrame (capture_of 1280 720 None no_products_response))) =
     Some ''Cannot capture frame due to security restrictions (CORS). Please try a local file or a CORS-enabled URL.''"
  using capture_failures_reported [of "capture_of 0 720 None no_products_response"
      "\<lparr>videoWidth = 0, videoHeight = 720\<rparr>" initial_state]
    capture_failures_reported [of "capture_of 1280 720 None no_products_response"
      "\<lparr>videoWidth = 1280, videoHeight = 720\<rparr>" initial_state]
  by (simp add: capture_of_def run_def)

lemma capture_try_shape:
  "\<exists>body. capture_try env video = [SetError None, SetIsProcessing True, SetDetections []] @ body \<and>
     (\<forall>before payload after. body = before @ DetectRequest payload # after \<longrightarrow>
        before = [DrawImage (videoWidth video) (videoHeight video)])"
  by (cases "drawImage env"; cases "toDataURL env"; cases "detectProducts (service env)")
     (auto simp: capture_try_def capture_catch_def Cons_eq_append_conv)

text \<open>
  Claim C9. In a capture that gets past the dimension check: whenever a detection
  request is issued, the processing flag is true at that moment; the flag is set to true
  in every such capture; the last effect of the capture sets it to false; and it is
  false in the final state, whatever \<^verbatim>\<open>drawImage\<close>, \<^verbatim>\<open>toDataURL\<close> and the detection call do.
\<close>

theorem processing_flag_bracket:
  "videoRef env = Some video \<and> canvasRef env \<and> getContext2d env \<and>
   0 < videoWidth video \<and> 0 < videoHeight video \<longrightarrow>
     (\<forall>before payload after.
        captureFrame env = before @ DetectRequest payload # after \<longrightarrow>
          isProcessing (run st before)) \<and>
     SetIsProcessing True \<in> set (captureFrame env) \<and>
     last (captureFrame env) = SetIsProcessing False \<and>
     isProcessing (run st (captureFrame env)) = False"
proof (intro impI)
  assume a: "videoRef env = Some video \<and> canvasRef env \<and> getContext2d env \<and>
   0 < videoWidth video \<and> 0 < videoHeight video"
  obtain body where body: "capture_try env video =
      [SetError None, SetIsProcessing True, SetDetections []] @ body"
    and req: "\<And>before payload after. body = before @ DetectRequest payload # after \<Longrightarrow>
        before = [DrawImage (videoWidth video) (videoHeight video)]"
    using capture_try_shape [of env video] by blast
  have c: "captureFrame env =
      ResizeCanvas (videoWidth video) (videoHeight video) # SetError None #
      SetIsProcessing True # SetDetections [] # body @ [SetIsProcessing False]"
    using a by (simp add: captureFrame_def body)
  have 1: "isProcessing (run st before)"
    if s: "captureFrame env = before @ DetectRequest payload # after" for before payload after
  proof -
    from s c obtain b' where b': "before =
        ResizeCanvas (videoWidth video) (videoHeight video) # SetError None #
        SetIsProcessing True # SetDetections [] # b'"
      and rest: "body @ [SetIsProcessing False] = b' @ DetectRequest payload # after"
      by (auto simp: Cons_eq_append_conv)
    from rest obtain after' where "body = b' @ DetectRequest payload # after'"
      by (cases after rule: rev_cases) auto
    then have "b' = [DrawImage (videoWidth video) (videoHeight video)]"
      by (rule req)
    then show ?thesis
      by (simp add: b' run_def)
  qed
  have 2: "SetIsProcessing True \<in> set (captureFrame env)"
    by (simp add: c)
  have 3: "last (captureFrame env) = SetIsProcessing False"
    by (simp add: c)
  have 4: "isProcessing (run st (captureFrame env)) = False"
    by (simp add: c run_def)
  show "(\<forall>before payload after.
        captureFrame env = before @ DetectRequest payload # after \<longrightarrow>
          isProcessing (run st before)) \<and>
     SetIsProcessing True \<in> set (captureFrame env) \<and>
     last (captureFrame env) = SetIsProcessing False \<and>
     isProcessing (run st (captureFrame env)) = False"
    using 1 2 3 4 by blast
qed

theorem processing_flag_bracket_witness:
  "captureFrame (capture_of 1280 720 (Some ''data:image/jpeg;base64,AAAA'') no_products_response) =
     [ResizeCanvas 1280 720, SetError None, SetIsProcessing True, SetDetections [],
      DrawImage 1280 720] @ DetectRequest (Some ''AAAA'') # [SetDetections [], SetIsProcessing False] \<and>
   isProcessing (run initial_state
     [ResizeCanvas 1280 720, SetError None, SetIsProcessing True, SetDetections [],
      DrawImage 1280 720]) \<and>
   isProcessing (run initial_state (captureFrame
     (capture_of 1280 720 (Some ''data:image/jpeg;base64,AAAA'') no_products_response))) = False"
  using processing_flag_bracket [of
      "capture_of 1280 720 (Some ''data:image/jpeg;base64,AAAA'') no_products_response"
      "\<lparr>videoWidth = 1280, videoHeight = 720\<rparr>" initial_state]
  by (simp add: capture_of_def captureFrame_def capture_try_def split_comma_1_def
      detectProducts_def detect_try_def no_products_response_def response_of_def run_def
      initial_state_def)

section \<open>Upload validation\<close>

text \<open>
  The handler runs three checks in order: type or extension, empty file, size limit. A
  file that fails one of them gets that check's message and nothing else happens; a file
  that passes all three goes on to \<^verbatim>\<open>URL.createObjectURL\<close>.
\<close>

lemma isVideoMime_iff: "isVideoMime f \<longleftrightarrow> (\<exists>rest. file_type f = ''video/'' @ rest)"
  by (simp only: isVideoMime_def startsWith_iff)

lemma handleFileUpload_unsupported:
  assumes "\<not> (isVideoMime f \<or> hasVideoExtension f)"
  shows "handleFileUpload src created (Some f) =
           [SetError None, SetError (Some (unsupported_format_message f))]"
  using assms by (simp add: handleFileUpload_def)

lemma handleFileUpload_empty:
  assumes "isVideoMime f \<or> hasVideoExtension f" and "file_size f = 0"
  shows "handleFileUpload src created (Some f) = [SetError None, SetError (Some empty_file_message)]"
  using assms by (auto simp: handleFileUpload_def)

lemma handleFileUpload_too_large:
  assumes "isVideoMime f \<or> hasVideoExtension f" and "MAX_FILE_SIZE_MB * 1024 * 1024 < file_size f"
  shows "handleFileUpload src created (Some f) =
           [SetError None, SetError (Some (too_large_message f))]"
  using assms by (auto simp: handleFileUpload_def)

lemma handleFileUpload_valid:
  assumes "isVideoMime f \<or> hasVideoExtension f" and "0 < file_size f"
    and "file_size f \<le> MAX_FILE_SIZE_MB * 1024 * 1024"
  shows "handleFileUpload src created (Some f) =
           SetError None #
           (if src \<noteq> [] \<and> startsWith src ''blob:'' then [RevokeObjectURL src] else []) @
           CreateObjectURL #
           (case created of
              None \<Rightarrow> [SetError (Some critical_error_message)]
            | Some url \<Rightarrow>
                if url = [] then [SetError (Some critical_error_message)]
                else [SetVideoSrc url, SetDetections [], SetHasUploaded True, SetError None])"
  using assms by (auto simp: handleFileUpload_def)

lemma actualSizeMB_div:
  "actualSizeMB f =
     show_nat ((10 * file_size f + 524288) div 1048576 div 10) @ ''.'' @
     show_nat ((10 * file_size f + 524288) div 1048576 mod 10)"
proof -
  have "10 * (of_nat (file_size f) / (1024 * 1024)) + 1 / 2
        = (of_nat (20 * file_size f + 1048576) / of_nat 2097152 :: rat)"
    by (simp add: field_simps)
  then have "\<lfloor>10 * (of_nat (file_size f) / (1024 * 1024)) + 1 / 2 :: rat\<rfloor>
        = int ((20 * file_size f + 1048576) div 2097152)"
    by (simp only: floor_divide_of_nat_eq)
  then have fl: "nat \<lfloor>10 * (of_nat (file_size f) / (1024 * 1024)) + 1 / 2 :: rat\<rfloor>
        = (20 * file_size f + 1048576) div 2097152"
    by (simp only: nat_int)
  have "(20 * file_size f + 1048576) div 2097152
        = (2 * (10 * file_size f + 524288)) div (2 * 1048576)"
    by simp
  also have "\<dots> = (10 * file_size f + 524288) div 1048576"
    by (rule div_mult_mult1) simp
  finally have "nat \<lfloor>10 * (of_nat (file_size f) / (1024 * 1024)) + 1 / 2 :: rat\<rfloor>
        = (10 * file_size f + 524288) div 1048576"
    using fl by (simp only:)
  then show ?thesis
    unfolding actualSizeMB_def toFixed1_def Let_def by (simp only:)
qed

lemma nearest_tenth:
  fixes s :: nat
  defines "n \<equiv> (10 * s + 524288) div 1048576"
  shows "\<bar>real n / 10 - real s / (1024 * 1024)\<bar> \<le> 1 / 20"
proof -
  have lo: "n * 1048576 \<le> 10 * s + 524288"
    unfolding n_def by (rule div_times_less_eq_dividend)
  have hi: "10 * s + 524288 < (n + 1) * 1048576"
    unfolding n_def using dividend_less_div_times [of 1048576 "10 * s + 524288"] by simp
  have lo': "real n * 1048576 \<le> 10 * real s + 524288"
    using lo by (metis (mono_tags, lifting) of_nat_add of_nat_le_iff of_nat_mult of_nat_numeral)
  have hi': "10 * real s + 524288 < (real n + 1) * 1048576"
    using hi by (metis (mono_tags, lifting) of_nat_1 of_nat_add of_nat_less_iff of_nat_mult of_nat_numeral)
  have "real n / 10 - real s / (1024 * 1024) = (real n * 1048576 - 10 * real s) / 10485760"
    by (simp add: field_simps)
  moreover have "\<bar>real n * 1048576 - 10 * real s\<bar> \<le> 524288"
    using lo' hi' by (simp add: abs_le_iff algebra_simps)
  ultimately show ?thesis
    by (simp add: abs_le_iff field_simps)
qed

lemma show_nat_small: "n < 10 \<Longrightarrow> show_nat n = [digit_char n]"
  by (simp add: show_nat.simps)

lemma show_nat_100: "show_nat 100 = ''100''"
  by (simp add: show_nat.simps digit_char_def char_of_eq_iff)

lemma show_nat_200: "show_nat 200 = ''200''"
  by (simp add: show_nat.simps digit_char_def char_of_eq_iff)

lemma show_nat_0: "show_nat 0 = ''0''"
  by (simp add: show_nat.simps digit_char_def char_of_eq_iff)

lemma notes_txt_format: "\<not> isVideoMime notes_txt \<and> \<not> hasVideoExtension notes_txt"
  by (simp add: notes_txt_def isVideoMime_def hasVideoExtension_def video_extensions_def
      matches_at_end_def Canonicalize_def)

lemma archive_zip_format: "\<not> isVideoMime archive_zip \<and> \<not> hasVideoExtension archive_zip"
  by (simp add: archive_zip_def isVideoMime_def hasVideoExtension_def video_extensions_def
      matches_at_end_def Canonicalize_def)

lemma holiday_mov_format: "\<not> isVideoMime holiday_mov \<and> hasVideoExtension holiday_mov"
  by (simp add: holiday_mov_def isVideoMime_def hasVideoExtension_def video_extensions_def
      matches_at_end_def Canonicalize_def)

text \<open>
  Claim C3, as the code has it. Every file of 0 bytes is rejected: the handler reports
  one error and leaves the video source as it was. The message is the empty-file message
  when the MIME type starts with \<^verbatim>\<open>video/\<close> or the name has a video extension; for every
  other file of 0 bytes the type check comes first, and the message is the
  unsupported-format message.
\<close>

theorem empty_file_rejected:
  "file_size f = 0 \<longrightarrow>
     handleFileUpload src created (Some f) =
       [SetError None,
        SetError (Some (if isVideoMime f \<or> hasVideoExtension f then empty_file_message
                        else unsupported_format_message f))] \<and>
     error (run st (handleFileUpload src created (Some f))) =
       Some (if isVideoMime f \<or> hasVideoExtension f then empty_file_message
             else unsupported_format_message f) \<and>
     videoSrc (run st (handleFileUpload src created (Some f))) = videoSrc st"
proof (intro impI)
  assume z: "file_size f = 0"
  have "handleFileUpload src created (Some f) =
       [SetError None,
        SetError (Some (if isVideoMime f \<or> hasVideoExtension f then empty_file_message
                        else unsupported_format_message f))]"
  proof (cases "isVideoMime f \<or> hasVideoExtension f")
    case True
    then show ?thesis
      using handleFileUpload_empty [OF True z] by (simp only: if_True)
  next
    case False
    then show ?thesis
      using handleFileUpload_unsupported [OF False] by (simp only: if_False)
  qed
  then show "handleFileUpload src created (Some f) =
       [SetError None,
        SetError (Some (if isVideoMime f \<or> hasVideoExtension f then empty_file_message
                        else unsupported_format_message f))] \<and>
     error (run st (handleFileUpload src created (Some f))) =
       Some (if isVideoMime f \<or> hasVideoExtension f then empty_file_message
             else unsupported_format_message f) \<and>
     videoSrc (run st (handleFileUpload src created (Some f))) = videoSrc st"
    by (simp add: run_def)
qed

theorem empty_file_rejected_witness:
  "file_size empty_clip = 0 \<and>
   handleFileUpload SAMPLE_VIDEO (Some ''blob:1'') (Some empty_clip) =
     [SetError None,
      SetError (Some ''The selected file is empty (0 bytes). Please upload a valid video file.'')] \<and>
   file_size notes_txt = 0 \<and>
   handleFileUpload SAMPLE_VIDEO (Some ''blob:1'') (Some notes_txt) =
     [SetError None, SetError (Some (unsupported_format_message notes_txt))]"
  using empty_file_rejected [of empty_clip SAMPLE_VIDEO "Some ''blob:1''" initial_state]
    empty_file_rejected [of notes_txt SAMPLE_VIDEO "Some ''blob:1''" initial_state]
    notes_txt_format
  by (simp add: empty_clip_def notes_txt_def isVideoMime_def empty_file_message_def)

text \<open>
  Claim C3 as stated fails: \<^verbatim>\<open>notes.txt\<close> of type \<^verbatim>\<open>text/plain\<close> has 0 bytes and is rejected
  with the unsupported-format message, not with the empty-file message.
\<close>

theorem empty_text_file_message:
  "file_size notes_txt = 0 \<and>
   handleFileUpload SAMPLE_VIDEO (Some ''blob:1'') (Some notes_txt) =
     [SetError None,
      SetError (Some ''\"notes.txt\" does not appear to be a supported video format. Please use MP4, WebM, or OGG.'')] \<and>
   empty_file_message \<noteq>
     ''\"notes.txt\" does not appear to be a supported video format. Please use MP4, WebM, or OGG.''"
  using handleFileUpload_unsupported [of notes_txt SAMPLE_VIDEO "Some ''blob:1''"] notes_txt_format
  by (simp add: unsupported_format_message_def empty_file_message_def notes_txt_def)

text \<open>
  Claim C6, as the code has it. Every file above 100 MB (100 * 1024 * 1024 bytes) is
  rejected. When its MIME type starts with \<^verbatim>\<open>video/\<close> or its name has a video extension,
  the message is the too-large message, which contains the size in MB as
  \<^verbatim>\<open>toFixed(1)\<close> prints it, followed by \<^verbatim>\<open>MB\<close>: the multiple of 0.1 nearest to
  size / 1048576. For every other file above 100 MB the type check comes first, and the
  message is the unsupported-format message, which is built from the file name alone.
\<close>

theorem oversized_file_rejected:
  "MAX_FILE_SIZE_MB * 1024 * 1024 < file_size f \<longrightarrow>
     (isVideoMime f \<or> hasVideoExtension f \<longrightarrow>
        handleFileUpload src created (Some f) =
          [SetError None, SetError (Some (too_large_message f))] \<and>
        includes_str (too_large_message f) (actualSizeMB f @ ''MB'') \<and>
        (\<exists>n. actualSizeMB f = show_nat (n div 10) @ ''.'' @ show_nat (n mod 10) \<and>
             \<bar>real n / 10 - real (file_size f) / (1024 * 1024)\<bar> \<le> 1 / 20)) \<and>
     (\<not> (isVideoMime f \<or> hasVideoExtension f) \<longrightarrow>
        handleFileUpload src created (Some f) =
          [SetError None, SetError (Some (unsupported_format_message f))])"
proof (intro impI conjI)
  assume big: "MAX_FILE_SIZE_MB * 1024 * 1024 < file_size f"
  {
    assume v: "isVideoMime f \<or> hasVideoExtension f"
    show "handleFileUpload src created (Some f) =
          [SetError None, SetError (Some (too_large_message f))]"
      by (rule handleFileUpload_too_large [OF v big])
  }
  show "includes_str (too_large_message f) (actualSizeMB f @ ''MB'')"
    using includes_str_append [of "''File is too large (''" "actualSizeMB f @ ''MB''"]
    by (simp add: too_large_message_def)
  show "\<exists>n. actualSizeMB f = show_nat (n div 10) @ ''.'' @ show_nat (n mod 10) \<and>
             \<bar>real n / 10 - real (file_size f) / (1024 * 1024)\<bar> \<le> 1 / 20"
    using actualSizeMB_div [of f] nearest_tenth [of "file_size f"] by blast
  {
    assume v: "\<not> (isVideoMime f \<or> hasVideoExtension f)"
    show "handleFileUpload src created (Some f) =
          [SetError None, SetError (Some (unsupported_format_message f))]"
      by (rule handleFileUpload_unsupported [OF v])
  }
qed

lemma actualSizeMB_long_clip: "actualSizeMB long_clip = ''200.0''"
  by (simp add: actualSizeMB_div long_clip_def show_nat_200 show_nat_0)

theorem oversized_file_rejected_witness:
  "MAX_FILE_SIZE_MB * 1024 * 1024 < file_size long_clip \<and> isVideoMime long_clip \<and>
   handleFileUpload SAMPLE_VIDEO (Some ''blob:1'') (Some long_clip) =
     [SetError None,
      SetError (Some ''File is too large (200.0MB). Please select a video smaller than 100MB to ensure smooth analysis.'')] \<and>
   actualSizeMB long_clip = ''200.0''"
  using oversized_file_rejected [of long_clip SAMPLE_VIDEO "Some ''blob:1''"] actualSizeMB_long_clip
  by (simp add: too_large_message_def MAX_FILE_SIZE_MB_def show_nat_100 isVideoMime_def long_clip_def)

text \<open>
  Claim C6 as stated fails: \<^verbatim>\<open>archive.zip\<close> of type \<^verbatim>\<open>application/zip\<close> has 200 MB and is
  rejected with the unsupported-format message, in which its size does not occur.
\<close>

theorem oversized_archive_message:
  "MAX_FILE_SIZE_MB * 1024 * 1024 < file_size archive_zip \<and>
   handleFileUpload SAMPLE_VIDEO (Some ''blob:1'') (Some archive_zip) =
     [SetError None,
      SetError (Some ''\"archive.zip\" does not appear to be a supported video format. Please use MP4, WebM, or OGG.'')] \<and>
   actualSizeMB archive_zip = ''200.0'' \<and>
   \<not> includes_str
     ''\"archive.zip\" does not appear to be a supported video format. Please use MP4, WebM, or OGG.''
     ''200''"
  using handleFileUpload_unsupported [of archive_zip SAMPLE_VIDEO "Some ''blob:1''"]
    archive_zip_format
  by (simp add: unsupported_format_message_def archive_zip_def MAX_FILE_SIZE_MB_def
      actualSizeMB_div show_nat_200 show_nat_0)

lemma unsupported_format_message_distinct:
  "unsupported_format_message f \<noteq> empty_file_message"
  "unsupported_format_message f \<noteq> too_large_message g"
  "unsupported_format_message f \<noteq> critical_error_message"
  by (simp_all add: unsupported_format_message_def empty_file_message_def too_large_message_def
      critical_error_message_def)

lemma unsupported_reported_iff:
  "SetError (Some (unsupported_format_message f)) \<in> set (handleFileUpload src created (Some f))
     \<longleftrightarrow> \<not> (isVideoMime f \<or> hasVideoExtension f)"
proof (cases "isVideoMime f \<or> hasVideoExtension f")
  case False
  then show ?thesis
    by (simp add: handleFileUpload_unsupported)
next
  case True
  consider (empty) "file_size f = 0" | (large) "MAX_FILE_SIZE_MB * 1024 * 1024 < file_size f"
    | (valid) "0 < file_size f" "file_size f \<le> MAX_FILE_SIZE_MB * 1024 * 1024"
    by linarith
  then have "SetError (Some (unsupported_format_message f))
               \<notin> set (handleFileUpload src created (Some f))"
  proof cases
    case empty
    show ?thesis
      by (simp add: handleFileUpload_empty [OF True empty] unsupported_format_message_distinct)
  next
    case large
    show ?thesis
      by (simp add: handleFileUpload_too_large [OF True large] unsupported_format_message_distinct)
  next
    case valid
    show ?thesis
      by (simp add: handleFileUpload_valid [OF True valid] unsupported_format_message_distinct
          split: option.splits)
  qed
  with True show ?thesis by simp
qed

lemma createObjectURL_called_iff:
  "CreateObjectURL \<in> set (handleFileUpload src created (Some f)) \<longleftrightarrow>
     (isVideoMime f \<or> hasVideoExtension f) \<and> 0 < file_size f \<and>
     file_size f \<le> MAX_FILE_SIZE_MB * 1024 * 1024"
proof (cases "isVideoMime f \<or> hasVideoExtension f")
  case False
  then show ?thesis
    by (simp add: handleFileUpload_unsupported)
next
  case True
  consider (empty) "file_size f = 0" | (large) "MAX_FILE_SIZE_MB * 1024 * 1024 < file_size f"
    | (valid) "0 < file_size f" "file_size f \<le> MAX_FILE_SIZE_MB * 1024 * 1024"
    by linarith
  then show ?thesis
  proof cases
    case empty
    show ?thesis
      using empty by (simp add: handleFileUpload_empty [OF True empty])
  next
    case large
    show ?thesis
      using large by (simp add: handleFileUpload_too_large [OF True large])
  next
    case valid
    show ?thesis
      using True valid by (simp add: handleFileUpload_valid [OF True valid])
  qed
qed

text \<open>
  Claim C10, as the code has it. A file is rejected as an unsupported format exactly
  when neither its MIME type starts with \<^verbatim>\<open>video/\<close> nor its name ends in one of
  \<^verbatim>\<open>.mp4 .webm .ogg .mov .mkv\<close> (in any case). It is accepted, that is the handler goes on
  to create the object URL, exactly when one of the two holds and its size is not zero
  and at most 100 MB. So \<^verbatim>\<open>holiday.MOV\<close> of 5 MB with no MIME type is accepted,
  although the rejection message names only MP4, WebM and OGG.
\<close>

theorem upload_validation_accepts:
  "(SetError (Some (unsupported_format_message f)) \<in> set (handleFileUpload src created (Some f))
      \<longleftrightarrow> \<not> ((\<exists>rest. file_type f = ''video/'' @ rest) \<or>
             (\<exists>stem ext. file_name f = stem @ ''.'' @ ext \<and>
                toLowerCase ext \<in> set video_extensions))) \<and>
   (CreateObjectURL \<in> set (handleFileUpload src created (Some f))
      \<longleftrightarrow> ((\<exists>rest. file_type f = ''video/'' @ rest) \<or>
           (\<exists>stem ext. file_name f = stem @ ''.'' @ ext \<and>
              toLowerCase ext \<in> set video_extensions)) \<and>
          0 < file_size f \<and> file_size f \<le> 100 * 1024 * 1024) \<and>
   handleFileUpload SAMPLE_VIDEO (Some ''blob:1'') (Some holiday_mov) =
     [SetError None, CreateObjectURL, SetVideoSrc ''blob:1'', SetDetections [],
      SetHasUploaded True, SetError None]"
proof (intro conjI)
  show "SetError (Some (unsupported_format_message f)) \<in> set (handleFileUpload src created (Some f))
      \<longleftrightarrow> \<not> ((\<exists>rest. file_type f = ''video/'' @ rest) \<or>
             (\<exists>stem ext. file_name f = stem @ ''.'' @ ext \<and>
                toLowerCase ext \<in> set video_extensions))"
    by (simp only: unsupported_reported_iff isVideoMime_iff hasVideoExtension_iff)
  show "CreateObjectURL \<in> set (handleFileUpload src created (Some f))
      \<longleftrightarrow> ((\<exists>rest. file_type f = ''video/'' @ rest) \<or>
           (\<exists>stem ext. file_name f = stem @ ''.'' @ ext \<and>
              toLowerCase ext \<in> set video_extensions)) \<and>
          0 < file_size f \<and> file_size f \<le> 100 * 1024 * 1024"
    by (simp only: createObjectURL_called_iff isVideoMime_iff hasVideoExtension_iff
        MAX_FILE_SIZE_MB_def)
  show "handleFileUpload SAMPLE_VIDEO (Some ''blob:1'') (Some holiday_mov) =
     [SetError None, CreateObjectURL, SetVideoSrc ''blob:1'', SetDetections [],
      SetHasUploaded True, SetError None]"
    using holiday_mov_format
    by (simp add: handleFileUpload_def holiday_mov_def MAX_FILE_SIZE_MB_def SAMPLE_VIDEO_def)
qed

text \<open>
  Claim C10 as stated fails: \<^verbatim>\<open>clip.mp4\<close> of type \<^verbatim>\<open>video/mp4\<close> has a video MIME type and
  a video extension, and it is not accepted, because it has 0 bytes.
\<close>

theorem empty_clip_not_accepted:
  "file_type empty_clip = ''video/'' @ ''mp4'' \<and> file_name empty_clip = ''clip'' @ ''.'' @ ''mp4'' \<and>
   handleFileUpload SAMPLE_VIDEO (Some ''blob:1'') (Some empty_clip) =
     [SetError None,
      SetError (Some ''The selected file is empty (0 bytes). Please upload a valid video file.'')] \<and>
   CreateObjectURL \<notin> set (handleFileUpload SAMPLE_VIDEO (Some ''blob:1'') (Some empty_clip))"
  by (simp add: handleFileUpload_def empty_clip_def isVideoMime_def empty_file_message_def)

end
